theory Spec2Isabelle
  imports Complex_Main "HOL-Library.Word"
begin

section \<open>JavaScript values used by the program\<close>

subsection \<open>Strings\<close>

text \<open>
  A JavaScript string is a sequence of 16-bit code units, and \<open>.length\<close> counts code
  units. String literals of the source are written \<open>ascii ''...''\<close>.
\<close>

type_synonym jsstring = "16 word list"

definition ascii :: "string \<Rightarrow> jsstring" where
  "ascii cs = map (\<lambda>c. of_char c) cs"

text \<open>
  \<open>String.prototype.trim\<close> removes leading and trailing WhiteSpace and LineTerminator
  code points: TAB, LF, VT, FF, CR, SP, NBSP, U+1680, U+2000 .. U+200A, LS, PS, U+202F,
  U+205F, U+3000 and the byte order mark U+FEFF.
\<close>

definition isWhiteSpace :: "16 word \<Rightarrow> bool" where
  "isWhiteSpace c \<longleftrightarrow>
     c = 0x0009 \<or> c = 0x000A \<or> c = 0x000B \<or> c = 0x000C \<or> c = 0x000D \<or>
     c = 0x0020 \<or> c = 0x00A0 \<or> c = 0x1680 \<or> (0x2000 \<le> c \<and> c \<le> 0x200A) \<or>
     c = 0x2028 \<or> c = 0x2029 \<or> c = 0x202F \<or> c = 0x205F \<or> c = 0x3000 \<or>
     c = 0xFEFF"

definition trim :: "jsstring \<Rightarrow> jsstring" where
  "trim s = rev (dropWhile isWhiteSpace (rev (dropWhile isWhiteSpace s)))"

subsection \<open>Numbers\<close>

text \<open>
  A JavaScript number is NaN, one of the two infinities, or a finite value. Finite values
  are kept as rationals: every finite double is one, and \<open><\<close> and \<open>>\<close> on doubles are
  the order of their values (\<open>-0\<close> and \<open>+0\<close> compare equal and print alike, so they are
  one value here).
\<close>

datatype number = NaN | NegInfinity | Finite rat | PosInfinity

text \<open>The relational operator \<open>a < b\<close> on two numbers: false as soon as one is NaN.\<close>

fun js_less :: "number \<Rightarrow> number \<Rightarrow> bool" where
  "js_less NaN _ = False"
| "js_less _ NaN = False"
| "js_less NegInfinity NegInfinity = False"
| "js_less NegInfinity _ = True"
| "js_less (Finite x) (Finite y) = (x < y)"
| "js_less (Finite x) PosInfinity = True"
| "js_less (Finite x) NegInfinity = False"
| "js_less PosInfinity _ = False"

text \<open>\<open>a > b\<close> is \<open>b < a\<close>.\<close>

definition js_greater :: "number \<Rightarrow> number \<Rightarrow> bool" where
  "js_greater a b = js_less b a"

text \<open>
  The built-in operations whose results depend on the double-precision grid are
  parameters of the model:
  \<^item> \<open>shortestDigits x\<close>, for a finite \<open>x > 0\<close>, is the pair \<open>(s, n)\<close> of
    \<open>Number::toString\<close>: the shortest decimal digit string \<open>s\<close> that reads back as
    \<open>x\<close>, and the position \<open>n\<close> of the decimal point (\<open>x\<close> is \<open>s * 10 ^ (n - k)\<close>
    up to rounding, \<open>k\<close> the number of digits of \<open>s\<close>);
  \<^item> \<open>toNumber\<close> is the coercion of a string to a number, the unary \<open>+\<close> of the
    source.
\<close>

record runtime =
  shortestDigits :: "rat \<Rightarrow> nat \<times> int"
  toNumber :: "jsstring \<Rightarrow> number"

text \<open>The decimal digits of a natural number, most significant first.\<close>

fun digits10 :: "nat \<Rightarrow> nat list" where
  "digits10 m = (if m < 10 then [m] else digits10 (m div 10) @ [m mod 10])"

declare digits10.simps [simp del]

definition digitChar :: "nat \<Rightarrow> 16 word" where
  "digitChar d = of_nat (48 + d)"

definition decimal :: "nat \<Rightarrow> jsstring" where
  "decimal m = map digitChar (digits10 m)"

text \<open>
  \<open>Number::toString\<close> (radix 10) for a positive finite number given by its digits \<open>s\<close>
  and point position \<open>n\<close>: plain digits, digits with a point, \<open>0.\<close> followed by zeros
  and the digits, or scientific notation when \<open>n\<close> is outside \<open>-5 .. 21\<close>.
\<close>

definition formatDigits :: "nat \<times> int \<Rightarrow> jsstring" where
  "formatDigits sn =
     (let s = fst sn; n = snd sn; ds = decimal s; k = int (length ds) in
      if - 5 \<le> n \<and> n \<le> 21 then
        (if n \<ge> k then ds @ replicate (nat (n - k)) (digitChar 0)
         else if n > 0 then take (nat n) ds @ ascii ''.'' @ drop (nat n) ds
         else ascii ''0.'' @ replicate (nat (- n)) (digitChar 0) @ ds)
      else
        (let exponentSign = (if n < 0 then ascii ''-'' else ascii ''+'');
             e = decimal (nat \<bar>n - 1\<bar>) in
         if k = 1 then ds @ ascii ''e'' @ exponentSign @ e
         else take 1 ds @ ascii ''.'' @ drop 1 ds @ ascii ''e'' @ exponentSign @ e))"

fun Number_toString :: "runtime \<Rightarrow> number \<Rightarrow> jsstring" where
  "Number_toString rt NaN = ascii ''NaN''"
| "Number_toString rt PosInfinity = ascii ''Infinity''"
| "Number_toString rt NegInfinity = ascii ''-Infinity''"
| "Number_toString rt (Finite x) =
     (if x = 0 then ascii ''0''
      else if x < 0 then ascii ''-'' @ formatDigits (shortestDigits rt (- x))
      else formatDigits (shortestDigits rt x))"

text \<open>A value of type \<open>string | number\<close>, with \<open>typeof\<close> as the constructor.\<close>

datatype jsvalue = Str jsstring | Num number

fun toString :: "runtime \<Rightarrow> jsvalue \<Rightarrow> jsstring" where
  "toString rt (Str s) = s"
| "toString rt (Num x) = Number_toString rt x"

section \<open>Validation\<close>

text \<open>
  The interface \<open>Validatable\<close>. An optional field is an \<open>option\<close>: \<open>None\<close> is a field
  that is absent (\<open>undefined\<close>).
\<close>

record validatable =
  value_v :: jsvalue
  required :: "bool option"
  minLength :: "number option"
  maxLength :: "number option"
  min_v :: "number option"
  max_v :: "number option"

text \<open>\<open>if (input.required)\<close>: the field is truthy only when it is present and true.\<close>

fun truthy :: "bool option \<Rightarrow> bool" where
  "truthy (Some b) = b"
| "truthy None = False"

definition string_length :: "jsstring \<Rightarrow> number" where
  "string_length s = Finite (of_nat (length s))"

text \<open>
  \<open>validate\<close>, statement by statement. A guard \<open>input.minLength != null && typeof
  input.value === "string"\<close> is a case on the field and on the constructor of the value.
\<close>

definition validate :: "runtime \<Rightarrow> validatable \<Rightarrow> bool" where
  "validate rt input =
     (let isValid = True;
          isValid = (if truthy (required input)
                     then isValid \<and> length (trim (toString rt (value_v input))) \<noteq> 0
                     else isValid);
          isValid = (case (minLength input, value_v input) of
                       (Some m, Str s) \<Rightarrow> isValid \<and> js_greater (string_length s) m
                     | _ \<Rightarrow> isValid);
          isValid = (case (maxLength input, value_v input) of
                       (Some m, Str s) \<Rightarrow> isValid \<and> js_less (string_length s) m
                     | _ \<Rightarrow> isValid);
          isValid = (case (min_v input, value_v input) of
                       (Some m, Num x) \<Rightarrow> isValid \<and> js_greater x m
                     | _ \<Rightarrow> isValid);
          isValid = (case (max_v input, value_v input) of
                       (Some m, Num x) \<Rightarrow> isValid \<and> js_less x m
                     | _ \<Rightarrow> isValid)
      in isValid)"

text \<open>An object literal that gives only \<open>value\<close>; the other fields are added by update.\<close>

definition just :: "jsvalue \<Rightarrow> validatable" where
  "just v = \<lparr>value_v = v, required = None, minLength = None, maxLength = None,
             min_v = None, max_v = None\<rparr>"

section \<open>Projects and the project store\<close>

datatype projectStatus = Active | Finished

record project =
  id_p :: jsstring
  title :: jsstring
  description :: jsstring
  people :: number
  status :: projectStatus

definition Project ::
  "jsstring \<Rightarrow> jsstring \<Rightarrow> jsstring \<Rightarrow> number \<Rightarrow> projectStatus \<Rightarrow> project" where
  "Project i t d n st = \<lparr>id_p = i, title = t, description = d, people = n, status = st\<rparr>"

text \<open>
  A listener, \<open>(item: Project[]) => void\<close>, works on the array it is handed and on the
  world outside the store (the views and the page), of type \<open>'w\<close>: it returns what it
  has made of the array and the new world. In this section a listener returns, does not
  call back into the store and leaves the \<open>Project\<close> objects in its array as they
  are; that holds of the only listener the program registers, the one of
  \<open>ProjectList\<close>. Listeners that write to the projects or throw are in the section on
  the store with its \<open>Project\<close> objects, of which this store is the restriction to
  the listeners here.
\<close>

type_synonym 'w listener = "project list \<Rightarrow> 'w \<Rightarrow> project list \<times> 'w"

record 'w projectState =
  listeners :: "'w listener list"
  projects :: "project list"

definition new_ProjectState :: "'w projectState" where
  "new_ProjectState = \<lparr>listeners = [], projects = []\<rparr>"

definition addListener :: "'w listener \<Rightarrow> 'w projectState \<Rightarrow> 'w projectState" where
  "addListener listenerFn this = this\<lparr>listeners := listeners this @ [listenerFn]\<rparr>"

text \<open>\<open>Array.prototype.slice()\<close> without arguments: a new array with the same elements.\<close>

definition slice :: "'a list \<Rightarrow> 'a list" where
  "slice xs = xs"

text \<open>
  The loop \<open>for (const listenerFn of this.listeners) listenerFn(this.projects.slice())\<close>.
  Each listener gets an array of its own, so what it makes of that array reaches neither
  the store nor the next listener, and with listeners that leave the projects as they
  are only the world is passed on.
\<close>

fun notify :: "'w listener list \<Rightarrow> project list \<Rightarrow> 'w \<Rightarrow> 'w" where
  "notify [] ps w = w"
| "notify (listenerFn # rest) ps w = notify rest ps (snd (listenerFn (slice ps) w))"

text \<open>
  \<open>addProject\<close>; \<open>rnd\<close> is the number that \<open>Math.random()\<close> returns in this call.
\<close>

definition addProject ::
  "runtime \<Rightarrow> jsstring \<Rightarrow> jsstring \<Rightarrow> number \<Rightarrow> number \<Rightarrow> 'w projectState \<Rightarrow> 'w
     \<Rightarrow> 'w projectState \<times> 'w" where
  "addProject rt t d numberOfPeople rnd this w =
     (let newProject = Project (Number_toString rt rnd) t d numberOfPeople Active;
          this' = this\<lparr>projects := projects this @ [newProject]\<rparr>
      in (this', notify (listeners this') (projects this') w))"

subsection \<open>The singleton\<close>

text \<open>
  Objects of class \<open>ProjectState\<close> live in a heap and are named by their address, so
  that two references can be compared. \<open>instance_ref\<close> is the static field
  \<open>ProjectState.instance\<close>, \<open>None\<close> while it is undefined. The constructor is private:
  \<open>getInstance\<close> is the only place that allocates.
\<close>

type_synonym addr = nat

record 'w memory =
  instance_ref :: "addr option"
  heap :: "'w projectState list"

definition init_memory :: "'w memory" where
  "init_memory = \<lparr>instance_ref = None, heap = []\<rparr>"

definition getInstance :: "'w memory \<Rightarrow> addr \<times> 'w memory" where
  "getInstance m =
     (case instance_ref m of
        Some a \<Rightarrow> (a, m)
      | None \<Rightarrow>
          (let a = length (heap m);
               m' = m\<lparr>heap := heap m @ [new_ProjectState], instance_ref := Some a\<rparr>
           in (a, m')))"

text \<open>A reference of the program always names an allocated object.\<close>

definition wf_memory :: "'w memory \<Rightarrow> bool" where
  "wf_memory m = (case instance_ref m of None \<Rightarrow> True | Some a \<Rightarrow> a < length (heap m))"

text \<open>
  The two methods called through a reference \<open>a\<close>. The program has no reference to
  an object that is not allocated, and the properties below are stated for allocated
  addresses only.
\<close>

definition ref_addListener :: "addr \<Rightarrow> 'w listener \<Rightarrow> 'w memory \<Rightarrow> 'w memory" where
  "ref_addListener a listenerFn m =
     m\<lparr>heap := (heap m)[a := addListener listenerFn (heap m ! a)]\<rparr>"

definition ref_addProject ::
  "runtime \<Rightarrow> addr \<Rightarrow> jsstring \<Rightarrow> jsstring \<Rightarrow> number \<Rightarrow> number \<Rightarrow> 'w memory \<times> 'w
     \<Rightarrow> 'w memory \<times> 'w" where
  "ref_addProject rt a t d n rnd mw =
     (let m = fst mw; w = snd mw;
          r = addProject rt t d n rnd (heap m ! a) w
      in (m\<lparr>heap := (heap m)[a := fst r]\<rparr>, snd r))"

text \<open>
  A call made on the store by a client: \<open>ProjectState.getInstance()\<close>,
  \<open>ProjectState.getInstance().addListener(f)\<close> and
  \<open>ProjectState.getInstance().addProject(t, d, n)\<close>, the last with the value drawn
  by \<open>Math.random()\<close>.
\<close>

datatype 'w call =
  GetInstance
| AddListener "'w listener"
| AddProject jsstring jsstring number number

fun exec :: "runtime \<Rightarrow> 'w call \<Rightarrow> 'w memory \<times> 'w \<Rightarrow> 'w memory \<times> 'w" where
  "exec rt GetInstance (m, w) = (snd (getInstance m), w)"
| "exec rt (AddListener f) (m, w) =
     (let r = getInstance m in (ref_addListener (fst r) f (snd r), w))"
| "exec rt (AddProject t d n rnd) (m, w) =
     (let r = getInstance m in ref_addProject rt (fst r) t d n rnd (snd r, w))"

fun run :: "runtime \<Rightarrow> 'w call list \<Rightarrow> 'w memory \<times> 'w \<Rightarrow> 'w memory \<times> 'w" where
  "run rt [] c = c"
| "run rt (x # xs) c = run rt xs (exec rt x c)"

text \<open>The projects held by the store, empty while no store exists.\<close>

definition stored :: "'w memory \<Rightarrow> project list" where
  "stored m = (case instance_ref m of None \<Rightarrow> [] | Some a \<Rightarrow> projects (heap m ! a))"

definition subscribers :: "'w memory \<Rightarrow> 'w listener list" where
  "subscribers m = (case instance_ref m of None \<Rightarrow> [] | Some a \<Rightarrow> listeners (heap m ! a))"

text \<open>
  A listener that records, in a log that is the world, its name and the array it was
  handed, and then makes \<open>g\<close> of that array.
\<close>

definition logger ::
  "nat \<Rightarrow> (project list \<Rightarrow> project list) \<Rightarrow> (nat \<times> project list) list listener" where
  "logger i g = (\<lambda>ps tr. (g ps, tr @ [(i, ps)]))"

text \<open>
  A runtime for the worked examples. It agrees with the language where the examples
  use it: 3 prints as \<open>3\<close>, 0.25 as \<open>0.25\<close> and 0.5 as \<open>0.5\<close>; the empty string
  coerces to 0, the
  string \<open>3\<close> to 3, and a string that is no numeric literal to NaN.
\<close>

definition example_runtime :: runtime where
  "example_runtime =
     \<lparr>shortestDigits = (\<lambda>x. if x = 3 then (3, 1) else if x = 1 / 4 then (25, 0) else (5, 0)),
      toNumber = (\<lambda>s. if trim s = [] then Finite 0
                        else if s = ascii ''3'' then Finite 3 else NaN)\<rparr>"

section \<open>The views\<close>

text \<open>
  The world outside the store: the \<open>value\<close> of the three input elements of the form,
  the alerts shown, the console, the number of submit events whose default action was
  suppressed, and for each of the two lists its field \<open>assignedProjects\<close> and the text
  of the \<open>li\<close> elements of its \<open>ul\<close>. The program creates one list of each type, so
  both are indexed by the type.
\<close>

datatype listType = active | finished

datatype log_entry = LogBool bool | LogInput jsstring jsstring number

record ui =
  titleInput :: jsstring
  descriptionInput :: jsstring
  peopleInput :: jsstring
  alerts :: "jsstring list"
  console :: "log_entry list"
  suppressed :: nat
  assignedProjects :: "listType \<Rightarrow> project list"
  listItems :: "listType \<Rightarrow> jsstring list"

definition init_ui :: ui where
  "init_ui =
     \<lparr>titleInput = [], descriptionInput = [], peopleInput = [], alerts = [], console = [],
      suppressed = 0, assignedProjects = (\<lambda>_. []), listItems = (\<lambda>_. [])\<rparr>"

subsection \<open>ProjectList\<close>

text \<open>\<open>renderProjects\<close>: empty the \<open>ul\<close>, then append one \<open>li\<close> per assigned project.\<close>

definition renderProjects :: "listType \<Rightarrow> ui \<Rightarrow> ui" where
  "renderProjects ty w =
     (let w1 = w\<lparr>listItems := (listItems w)(ty := [])\<rparr>
      in foldl (\<lambda>w' prjItems. w'\<lparr>listItems := (listItems w')(ty := listItems w' ty @ [title prjItems])\<rparr>)
           w1 (assignedProjects w ty))"

text \<open>The listener that the constructor of \<open>ProjectList\<close> registers.\<close>

definition ProjectList_listener :: "listType \<Rightarrow> ui listener" where
  "ProjectList_listener ty =
     (\<lambda>projects w.
        let relevantProjects =
              filter (\<lambda>prj. if ty = active then status prj = Active
                             else status prj = Finished) projects;
            w1 = w\<lparr>assignedProjects := (assignedProjects w)(ty := relevantProjects)\<rparr>
        in (projects, renderProjects ty w1))"

text \<open>
  The constructor of \<open>ProjectList\<close>, without the instantiation of the template:
  \<open>assignedProjects\<close> starts empty and the listener is registered with the store
  \<open>projectState\<close>.
\<close>

definition new_ProjectList :: "addr \<Rightarrow> listType \<Rightarrow> ui memory \<times> ui \<Rightarrow> ui memory \<times> ui" where
  "new_ProjectList projectState ty mw =
     (let m = fst mw; w = snd mw;
          w1 = w\<lparr>assignedProjects := (assignedProjects w)(ty := [])\<rparr>
      in (ref_addListener projectState (ProjectList_listener ty) m, w1))"

subsection \<open>ProjectInput\<close>

definition validTitle :: "jsstring \<Rightarrow> validatable" where
  "validTitle enteredTitle = (just (Str enteredTitle))\<lparr>required := Some True\<rparr>"

definition validDescription :: "jsstring \<Rightarrow> validatable" where
  "validDescription enteredDescription =
     (just (Str enteredDescription))\<lparr>required := Some True, minLength := Some (Finite 5)\<rparr>"

definition validPeople :: "runtime \<Rightarrow> jsstring \<Rightarrow> validatable" where
  "validPeople rt enteredPeople =
     (just (Num (toNumber rt enteredPeople)))\<lparr>required := Some True\<rparr>"

text \<open>\<open>gatherUsersInput\<close>: \<open>None\<close> is the \<open>undefined\<close> of the bare \<open>return\<close>.\<close>

definition gatherUsersInput ::
  "runtime \<Rightarrow> ui \<Rightarrow> (jsstring \<times> jsstring \<times> number) option \<times> ui" where
  "gatherUsersInput rt w =
     (let enteredTitle = titleInput w;
          enteredDescription = descriptionInput w;
          enteredPeople = peopleInput w
      in if \<not> validate rt (validTitle enteredTitle) \<or>
            \<not> validate rt (validDescription enteredDescription) \<or>
            \<not> validate rt (validPeople rt enteredPeople)
         then
           (let data = validate rt (validPeople rt enteredPeople);
                w1 = w\<lparr>console := console w @ [LogBool data]\<rparr>;
                w2 = w1\<lparr>alerts := alerts w1 @ [ascii ''invalid input'']\<rparr>
            in (None, w2))
         else (Some (enteredTitle, enteredDescription, toNumber rt enteredPeople), w))"

definition clearInputs :: "ui \<Rightarrow> ui" where
  "clearInputs w = w\<lparr>descriptionInput := [], titleInput := [], peopleInput := []\<rparr>"

text \<open>
  \<open>submitHandler\<close>, bound to its \<open>ProjectInput\<close>; \<open>projectState\<close> is the constant of
  the module and \<open>rnd\<close> the number that \<open>Math.random()\<close> returns if it is called.
\<close>

definition submitHandler ::
  "runtime \<Rightarrow> addr \<Rightarrow> number \<Rightarrow> ui memory \<times> ui \<Rightarrow> ui memory \<times> ui" where
  "submitHandler rt projectState rnd mw =
     (let m = fst mw; w = snd mw;
          w0 = w\<lparr>suppressed := suppressed w + 1\<rparr>;
          r = gatherUsersInput rt w0
      in case fst r of
           Some (t, d, n) \<Rightarrow>
             (let s = ref_addProject rt projectState t d n rnd (m, snd r);
                  w1 = (snd s)\<lparr>console := console (snd s) @ [LogInput t d n]\<rparr>
              in (fst s, clearInputs w1))
         | None \<Rightarrow> (m, snd r))"

subsection \<open>The module\<close>

text \<open>
  The statements at top level: the store is created, then the form and the two lists.
  The result is the constant \<open>projectState\<close> with the memory and the world.
\<close>

definition main :: "addr \<times> (ui memory \<times> ui)" where
  "main =
     (let r = getInstance init_memory;
          projectState = fst r;
          c0 = (snd r, init_ui);
          c1 = new_ProjectList projectState active c0;
          c2 = new_ProjectList projectState finished c1
      in (projectState, c2))"

text \<open>
  What the user does afterwards: fill in the three fields and submit the form, any
  number of times. A submission is the three texts and the random number of that call.
\<close>

type_synonym submission = "jsstring \<times> jsstring \<times> jsstring \<times> number"

fun submit :: "runtime \<Rightarrow> addr \<Rightarrow> submission \<Rightarrow> ui memory \<times> ui \<Rightarrow> ui memory \<times> ui" where
  "submit rt projectState (t, d, p, rnd) (m, w) =
     submitHandler rt projectState rnd
       (m, w\<lparr>titleInput := t, descriptionInput := d, peopleInput := p\<rparr>)"

fun session :: "runtime \<Rightarrow> addr \<Rightarrow> submission list \<Rightarrow> ui memory \<times> ui \<Rightarrow> ui memory \<times> ui" where
  "session rt projectState [] c = c"
| "session rt projectState (x # xs) c = session rt projectState xs (submit rt projectState x c)"

section \<open>The final version of the store: a shared base class\<close>

text \<open>
  \<open>class State<T>\<close> holds the listeners and \<open>addListener\<close>; \<open>ProjectState extends
  State<Project>\<close> adds the projects. The record of the subclass extends the record of
  the base class, and the inherited method works on every extension.
\<close>

record 'w state_base =
  listeners3 :: "'w listener list"

definition State_addListener ::
  "'w listener \<Rightarrow> ('w, 'z) state_base_scheme \<Rightarrow> ('w, 'z) state_base_scheme" where
  "State_addListener listenerFn this = this\<lparr>listeners3 := listeners3 this @ [listenerFn]\<rparr>"

record 'w projectState3 = "'w state_base" +
  projects3 :: "project list"

definition new_ProjectState3 :: "'w projectState3" where
  "new_ProjectState3 = \<lparr>listeners3 = [], projects3 = []\<rparr>"

definition addProject3 ::
  "runtime \<Rightarrow> jsstring \<Rightarrow> jsstring \<Rightarrow> number \<Rightarrow> number \<Rightarrow> 'w projectState3 \<Rightarrow> 'w
     \<Rightarrow> 'w projectState3 \<times> 'w" where
  "addProject3 rt t d numberOfPeople rnd this w =
     (let newProject = Project (Number_toString rt rnd) t d numberOfPeople Active;
          this' = this\<lparr>projects3 := projects3 this @ [newProject]\<rparr>
      in (this', notify (listeners3 this') (projects3 this') w))"

record 'w memory3 =
  instance_ref3 :: "addr option"
  heap3 :: "'w projectState3 list"

definition init_memory3 :: "'w memory3" where
  "init_memory3 = \<lparr>instance_ref3 = None, heap3 = []\<rparr>"

definition getInstance3 :: "'w memory3 \<Rightarrow> addr \<times> 'w memory3" where
  "getInstance3 m =
     (case instance_ref3 m of
        Some a \<Rightarrow> (a, m)
      | None \<Rightarrow>
          (let a = length (heap3 m);
               m' = m\<lparr>heap3 := heap3 m @ [new_ProjectState3], instance_ref3 := Some a\<rparr>
           in (a, m')))"

definition ref_addListener3 :: "addr \<Rightarrow> 'w listener \<Rightarrow> 'w memory3 \<Rightarrow> 'w memory3" where
  "ref_addListener3 a listenerFn m =
     m\<lparr>heap3 := (heap3 m)[a := State_addListener listenerFn (heap3 m ! a)]\<rparr>"

definition ref_addProject3 ::
  "runtime \<Rightarrow> addr \<Rightarrow> jsstring \<Rightarrow> jsstring \<Rightarrow> number \<Rightarrow> number \<Rightarrow> 'w memory3 \<times> 'w
     \<Rightarrow> 'w memory3 \<times> 'w" where
  "ref_addProject3 rt a t d n rnd mw =
     (let m = fst mw; w = snd mw;
          r = addProject3 rt t d n rnd (heap3 m ! a) w
      in (m\<lparr>heap3 := (heap3 m)[a := fst r]\<rparr>, snd r))"

fun exec3 :: "runtime \<Rightarrow> 'w call \<Rightarrow> 'w memory3 \<times> 'w \<Rightarrow> 'w memory3 \<times> 'w" where
  "exec3 rt GetInstance (m, w) = (snd (getInstance3 m), w)"
| "exec3 rt (AddListener f) (m, w) =
     (let r = getInstance3 m in (ref_addListener3 (fst r) f (snd r), w))"
| "exec3 rt (AddProject t d n rnd) (m, w) =
     (let r = getInstance3 m in ref_addProject3 rt (fst r) t d n rnd (snd r, w))"

fun run3 :: "runtime \<Rightarrow> 'w call list \<Rightarrow> 'w memory3 \<times> 'w \<Rightarrow> 'w memory3 \<times> 'w" where
  "run3 rt [] c = c"
| "run3 rt (x # xs) c = run3 rt xs (exec3 rt x c)"

text \<open>A store of the final version read as a store of the intermediate version.\<close>

definition abs3_obj :: "'w projectState3 \<Rightarrow> 'w projectState" where
  "abs3_obj obj = \<lparr>listeners = listeners3 obj, projects = projects3 obj\<rparr>"

definition abs3 :: "'w memory3 \<Rightarrow> 'w memory" where
  "abs3 m = \<lparr>instance_ref = instance_ref3 m, heap = map abs3_obj (heap3 m)\<rparr>"

section \<open>The earliest version of the store\<close>

text \<open>
  The earliest \<open>ProjectState\<close> keeps object literals with the four properties \<open>id\<close>,
  \<open>title\<close>, \<open>description\<close> and \<open>people\<close>; it has no listeners, and \<open>addListener\<close> is
  commented out, so a call of it is a \<open>TypeError\<close>.
\<close>

record project0 =
  id0 :: jsstring
  title0 :: jsstring
  description0 :: jsstring
  people0 :: number

record projectState0 =
  projects0 :: "project0 list"

definition new_ProjectState0 :: projectState0 where
  "new_ProjectState0 = \<lparr>projects0 = []\<rparr>"

definition addProject0 ::
  "runtime \<Rightarrow> jsstring \<Rightarrow> jsstring \<Rightarrow> number \<Rightarrow> number \<Rightarrow> projectState0 \<Rightarrow> projectState0" where
  "addProject0 rt t d numberOfPeople rnd this =
     (let newProject =
            \<lparr>id0 = Number_toString rt rnd, title0 = t, description0 = d,
             people0 = numberOfPeople\<rparr>
      in this\<lparr>projects0 := projects0 this @ [newProject]\<rparr>)"

record memory0 =
  instance_ref0 :: "addr option"
  heap0 :: "projectState0 list"

definition init_memory0 :: memory0 where
  "init_memory0 = \<lparr>instance_ref0 = None, heap0 = []\<rparr>"

definition getInstance0 :: "memory0 \<Rightarrow> addr \<times> memory0" where
  "getInstance0 m =
     (case instance_ref0 m of
        Some a \<Rightarrow> (a, m)
      | None \<Rightarrow>
          (let a = length (heap0 m);
               m' = m\<lparr>heap0 := heap0 m @ [new_ProjectState0], instance_ref0 := Some a\<rparr>
           in (a, m')))"

definition ref_addProject0 ::
  "runtime \<Rightarrow> addr \<Rightarrow> jsstring \<Rightarrow> jsstring \<Rightarrow> number \<Rightarrow> number \<Rightarrow> memory0 \<Rightarrow> memory0" where
  "ref_addProject0 rt a t d n rnd m =
     m\<lparr>heap0 := (heap0 m)[a := addProject0 rt t d n rnd (heap0 m ! a)]\<rparr>"

datatype js_error = TypeError

fun exec0 :: "runtime \<Rightarrow> 'w call \<Rightarrow> memory0 \<Rightarrow> js_error + memory0" where
  "exec0 rt GetInstance m = Inr (snd (getInstance0 m))"
| "exec0 rt (AddListener f) m = Inl TypeError"
| "exec0 rt (AddProject t d n rnd) m =
     (let r = getInstance0 m in Inr (ref_addProject0 rt (fst r) t d n rnd (snd r)))"

fun run0 :: "runtime \<Rightarrow> 'w call list \<Rightarrow> memory0 \<Rightarrow> js_error + memory0" where
  "run0 rt [] m = Inr m"
| "run0 rt (x # xs) m = (case exec0 rt x m of Inl e \<Rightarrow> Inl e | Inr m' \<Rightarrow> run0 rt xs m')"

definition stored0 :: "memory0 \<Rightarrow> project0 list" where
  "stored0 m = (case instance_ref0 m of None \<Rightarrow> [] | Some a \<Rightarrow> projects0 (heap0 m ! a))"

text \<open>
  The properties of a stored object, to compare the objects of two versions: the
  status is absent from the objects of the earliest version.
\<close>

type_synonym properties = "jsstring \<times> jsstring \<times> jsstring \<times> number \<times> projectStatus option"

definition properties0 :: "project0 \<Rightarrow> properties" where
  "properties0 p = (id0 p, title0 p, description0 p, people0 p, None)"

definition properties_of :: "project \<Rightarrow> properties" where
  "properties_of p = (id_p p, title p, description p, people p, Some (status p))"

definition without_status :: "project \<Rightarrow> project0" where
  "without_status p =
     \<lparr>id0 = id_p p, title0 = title p, description0 = description p, people0 = people p\<rparr>"

definition is_AddListener :: "'w call \<Rightarrow> bool" where
  "is_AddListener c = (case c of AddListener f \<Rightarrow> True | _ \<Rightarrow> False)"

text \<open>
  The equivalence of the earliest and the intermediate version on a sequence of calls,
  from the initial memories and with a log of notifications as the world: the earliest
  version runs the calls without error, the stored objects have the same properties, and
  as the earliest version notifies nobody the log stays empty.
\<close>

definition same_behaviour_earliest ::
  "runtime \<Rightarrow> (nat \<times> project list) list call list \<Rightarrow> bool" where
  "same_behaviour_earliest rt cs =
     (case run0 rt cs init_memory0 of
        Inl e \<Rightarrow> False
      | Inr m0 \<Rightarrow>
          (let r = run rt cs (init_memory, []) in
           map properties0 (stored0 m0) = map properties_of (stored (fst r)) \<and> snd r = []))"

text \<open>The listeners that a sequence of calls registers, in the order of the calls.\<close>

fun registered :: "'w call list \<Rightarrow> 'w listener list" where
  "registered [] = []"
| "registered (AddListener f # cs) = f # registered cs"
| "registered (_ # cs) = registered cs"

text \<open>
  What holds of the program after the module has run and after every submission: the
  store exists, its listeners are those of the two lists, every project is active, and
  the finished list has no project assigned and shows no item.
\<close>

definition app_inv :: "addr \<Rightarrow> ui memory \<times> ui \<Rightarrow> bool" where
  "app_inv a c \<longleftrightarrow>
     a < length (heap (fst c)) \<and>
     listeners (heap (fst c) ! a) = [ProjectList_listener active, ProjectList_listener finished] \<and>
     (\<forall>p\<in>set (projects (heap (fst c) ! a)). status p = Active) \<and>
     assignedProjects (snd c) finished = [] \<and> listItems (snd c) finished = []"

text \<open>
  A memory of the intermediate version read as a memory of the earliest version: the
  listeners and the status of every project are forgotten.
\<close>

definition abs0_obj :: "'w projectState \<Rightarrow> projectState0" where
  "abs0_obj obj = \<lparr>projects0 = map without_status (projects obj)\<rparr>"

definition abs0 :: "'w memory \<Rightarrow> memory0" where
  "abs0 m = \<lparr>instance_ref0 = instance_ref m, heap0 = map abs0_obj (heap m)\<rparr>"

section \<open>The store with its Project objects\<close>

text \<open>
  \<open>this.projects.slice()\<close> copies the array, not the \<open>Project\<close> objects in it: the
  array a listener is handed is its own, the objects are those of the store, and their
  fields can be written. A listener can also throw, which ends \<open>addProject\<close> before
  the listeners after it are invoked. The store is modelled here with this sharing made
  explicit: the \<open>Project\<close> objects are named by their address, the array of the store
  holds addresses, and a listener works on the array it is handed, on the objects and on
  the world outside the store; it returns or throws. A listener still does not call back
  into the store. The store of the section before is this store with listeners that
  return and leave the objects as they are (\<open>lift\<close> below).
\<close>

type_synonym ref = nat

type_synonym objects = "ref \<Rightarrow> project"

datatype outcome = Returned | Threw

type_synonym 'w listener_o = "ref list \<Rightarrow> objects \<times> 'w \<Rightarrow> outcome \<times> objects \<times> 'w"

record 'w projectState_o =
  listeners_o :: "'w listener_o list"
  projects_o :: "ref list"

definition new_ProjectState_o :: "'w projectState_o" where
  "new_ProjectState_o = \<lparr>listeners_o = [], projects_o = []\<rparr>"

definition addListener_o :: "'w listener_o \<Rightarrow> 'w projectState_o \<Rightarrow> 'w projectState_o" where
  "addListener_o listenerFn this = this\<lparr>listeners_o := listeners_o this @ [listenerFn]\<rparr>"

text \<open>
  The loop over the listeners: each is handed a new array of the same addresses, the
  objects as the listeners before it have left them, and the world; an exception ends
  the loop.
\<close>

fun notify_o ::
  "'w listener_o list \<Rightarrow> ref list \<Rightarrow> objects \<times> 'w \<Rightarrow> outcome \<times> objects \<times> 'w" where
  "notify_o [] rs s = (Returned, s)"
| "notify_o (listenerFn # rest) rs s =
     (case listenerFn (slice rs) s of
        (Threw, s') \<Rightarrow> (Threw, s')
      | (Returned, s') \<Rightarrow> notify_o rest rs s')"

text \<open>
  The objects allocated so far are those at the addresses below \<open>allocated\<close>;
  \<open>new Project(...)\<close> takes the next address.
\<close>

record heap_o =
  objects :: objects
  allocated :: nat

definition addProject_o ::
  "runtime \<Rightarrow> jsstring \<Rightarrow> jsstring \<Rightarrow> number \<Rightarrow> number \<Rightarrow> 'w projectState_o
     \<Rightarrow> heap_o \<times> 'w \<Rightarrow> outcome \<times> 'w projectState_o \<times> heap_o \<times> 'w" where
  "addProject_o rt t d numberOfPeople rnd this hw =
     (let h = fst hw; w = snd hw;
          r = allocated h;
          newProject = Project (Number_toString rt rnd) t d numberOfPeople Active;
          h1 = h\<lparr>objects := (objects h)(r := newProject), allocated := r + 1\<rparr>;
          this' = this\<lparr>projects_o := projects_o this @ [r]\<rparr>;
          res = notify_o (listeners_o this') (projects_o this') (objects h1, w)
      in (fst res, this', h1\<lparr>objects := fst (snd res)\<rparr>, snd (snd res)))"

text \<open>The projects of the store, read through its addresses.\<close>

definition contents_o :: "'w projectState_o \<times> heap_o \<times> 'w \<Rightarrow> project list" where
  "contents_o c = map (objects (fst (snd c))) (projects_o (fst c))"

text \<open>
  Calls on the one store. The outcome of \<open>addProject\<close> is not kept: an exception goes
  to the caller, and the store and the objects stay as the call left them.
\<close>

datatype 'w call_o =
  AddListener_o "'w listener_o"
| AddProject_o jsstring jsstring number number

fun exec_o ::
  "runtime \<Rightarrow> 'w call_o \<Rightarrow> 'w projectState_o \<times> heap_o \<times> 'w
     \<Rightarrow> 'w projectState_o \<times> heap_o \<times> 'w" where
  "exec_o rt (AddListener_o f) (this, hw) = (addListener_o f this, hw)"
| "exec_o rt (AddProject_o t d n rnd) (this, hw) = snd (addProject_o rt t d n rnd this hw)"

fun run_o ::
  "runtime \<Rightarrow> 'w call_o list \<Rightarrow> 'w projectState_o \<times> heap_o \<times> 'w
     \<Rightarrow> 'w projectState_o \<times> heap_o \<times> 'w" where
  "run_o rt [] c = c"
| "run_o rt (x # xs) c = run_o rt xs (exec_o rt x c)"

fun registered_o :: "'w call_o list \<Rightarrow> 'w listener_o list" where
  "registered_o [] = []"
| "registered_o (AddListener_o f # cs) = f # registered_o cs"
| "registered_o (_ # cs) = registered_o cs"

text \<open>A listener that never changes the status of a project.\<close>

definition keeps_status :: "'w listener_o \<Rightarrow> bool" where
  "keeps_status f \<longleftrightarrow>
     (\<forall>rs objs w r. status (fst (snd (f rs (objs, w))) r) = status (objs r))"

text \<open>
  A listener of the section before as a listener here: it reads the projects in its
  array, leaves the objects as they are and returns.
\<close>

definition lift :: "'w listener \<Rightarrow> 'w listener_o" where
  "lift f = (\<lambda>rs s. (Returned, fst s, snd (f (map (fst s) rs) (snd s))))"

text \<open>
  Listeners to observe the store with: \<open>logger_o i k\<close> records its name and the projects
  in the array it is handed, then does \<open>k\<close> to the objects and returns; \<open>finish_all\<close>
  is the body \<open>for (const p of projects) p.status = ProjectStatus.Finished\<close>; and
  \<open>thrower\<close> throws at once.
\<close>

definition logger_o ::
  "nat \<Rightarrow> (ref list \<Rightarrow> objects \<Rightarrow> objects) \<Rightarrow> (nat \<times> project list) list listener_o" where
  "logger_o i k = (\<lambda>rs s. (Returned, k rs (fst s), snd s @ [(i, map (fst s) rs)]))"

definition finish_all :: "ref list \<Rightarrow> objects \<Rightarrow> objects" where
  "finish_all rs objs = (\<lambda>r. if r \<in> set rs then (objs r)\<lparr>status := Finished\<rparr> else objs r)"

definition thrower :: "'w listener_o" where
  "thrower = (\<lambda>rs s. (Threw, s))"

text \<open>
  The digits that \<open>Number::toString\<close> works with: \<open>s\<close> is at least 1 and, its number
  of digits being as small as possible, not divisible by 10.
\<close>

definition canonical :: "nat \<times> int \<Rightarrow> bool" where
  "canonical sn \<longleftrightarrow> 1 \<le> fst sn \<and> \<not> 10 dvd fst sn"

text \<open>
  What holds of the store with its objects as long as the listeners keep the status of
  the projects: every project of the store is allocated and active.
\<close>

definition inv_o :: "'w projectState_o \<times> heap_o \<times> 'w \<Rightarrow> bool" where
  "inv_o c \<longleftrightarrow>
     (\<forall>r\<in>set (projects_o (fst c)).
        r < allocated (fst (snd c)) \<and> status (objects (fst (snd c)) r) = Active)"

text \<open>
  The heap before any project is created. An address that is not allocated holds a
  blank object, which \<open>new Project(...)\<close> overwrites.
\<close>

definition init_heap_o :: heap_o where
  "init_heap_o = \<lparr>objects = (\<lambda>_. Project [] [] [] NaN Active), allocated = 0\<rparr>"

section \<open>Properties of the built-in operations\<close>

lemma dropWhile_all_iff:
  "(\<forall>x\<in>set (dropWhile P s). P x) \<longleftrightarrow> (\<forall>x\<in>set s. P x)"
proof
  assume a: "\<forall>x\<in>set (dropWhile P s). P x"
  have "dropWhile P s = []"
  proof (rule ccontr)
    assume n: "dropWhile P s \<noteq> []"
    then have "\<not> P (hd (dropWhile P s))" by (rule hd_dropWhile)
    moreover from n have "hd (dropWhile P s) \<in> set (dropWhile P s)" by simp
    ultimately show False using a by blast
  qed
  then show "\<forall>x\<in>set s. P x" by simp
next
  assume "\<forall>x\<in>set s. P x"
  then show "\<forall>x\<in>set (dropWhile P s). P x" by (meson set_dropWhileD)
qed

lemma trim_Nil_iff: "trim s = [] \<longleftrightarrow> (\<forall>c\<in>set s. isWhiteSpace c)"
  by (simp add: trim_def dropWhile_all_iff)

lemma digits10_lt: "d \<in> set (digits10 m) \<Longrightarrow> d < 10"
  by (induction m arbitrary: d rule: digits10.induct)
     (subst (asm) digits10.simps, auto split: if_splits)

lemma digits10_nonempty: "digits10 m \<noteq> []"
  by (subst digits10.simps) simp

lemma digitChar_notWS: "d < 10 \<Longrightarrow> \<not> isWhiteSpace (digitChar d)"
proof -
  assume "d < 10"
  then have "d \<in> {0, 1, 2, 3, 4, 5, 6, 7, 8, 9}" by auto
  then show ?thesis
    by (auto simp: isWhiteSpace_def digitChar_def)
qed

lemma decimal_notWS: "c \<in> set (decimal m) \<Longrightarrow> \<not> isWhiteSpace c"
  by (auto simp: decimal_def dest!: digits10_lt digitChar_notWS)

lemma decimal_nonempty: "decimal m \<noteq> []"
  by (simp add: decimal_def digits10_nonempty)

lemma formatDigits_nonempty: "formatDigits sn \<noteq> []"
  by (simp add: formatDigits_def Let_def decimal_nonempty ascii_def)

lemma formatDigits_notWS: "c \<in> set (formatDigits sn) \<Longrightarrow> \<not> isWhiteSpace c"
  by (auto simp: formatDigits_def Let_def ascii_def isWhiteSpace_def [of "0x2E"]
      isWhiteSpace_def [of "0x30"] isWhiteSpace_def [of "0x65"] isWhiteSpace_def [of "0x2B"]
      isWhiteSpace_def [of "0x2D"] digitChar_notWS
      split: if_splits dest: decimal_notWS in_set_takeD in_set_dropD)

lemma Number_toString_nonempty: "Number_toString rt x \<noteq> []"
  by (cases x) (simp_all add: ascii_def formatDigits_nonempty)

lemma Number_toString_notWS: "c \<in> set (Number_toString rt x) \<Longrightarrow> \<not> isWhiteSpace c"
  by (cases x) (auto simp: ascii_def isWhiteSpace_def dest: formatDigits_notWS split: if_splits)

lemma trim_Number_toString: "trim (Number_toString rt x) \<noteq> []"
proof -
  obtain c where "c \<in> set (Number_toString rt x)"
    using Number_toString_nonempty [of rt x] by (cases "Number_toString rt x") auto
  then show ?thesis
    using Number_toString_notWS by (auto simp: trim_Nil_iff)
qed

section \<open>Properties of validation\<close>

lemma validate_unfold:
  "validate rt input \<longleftrightarrow>
     (truthy (required input) \<longrightarrow> trim (toString rt (value_v input)) \<noteq> []) \<and>
     (\<forall>m s. minLength input = Some m \<and> value_v input = Str s
        \<longrightarrow> js_greater (string_length s) m) \<and>
     (\<forall>m s. maxLength input = Some m \<and> value_v input = Str s
        \<longrightarrow> js_less (string_length s) m) \<and>
     (\<forall>m x. min_v input = Some m \<and> value_v input = Num x \<longrightarrow> js_greater x m) \<and>
     (\<forall>m x. max_v input = Some m \<and> value_v input = Num x \<longrightarrow> js_less x m)"
  unfolding validate_def Let_def
  by (cases "value_v input"; cases "minLength input"; cases "maxLength input";
      cases "min_v input"; cases "max_v input") auto

lemma string_length_greater:
  "js_greater (string_length s) (Finite (of_nat k)) \<longleftrightarrow> k < length s"
  by (simp add: js_greater_def string_length_def)

lemma string_length_less:
  "js_less (string_length s) (Finite (of_nat k)) \<longleftrightarrow> length s < k"
  by (simp add: string_length_def)

text \<open>
  C2. \<open>validate\<close> is a function of its input alone (and of the built-in string
  conversion) and returns the conjunction of the constraints that are present: the
  \<open>required\<close> check holds when the trimmed string form of the value is not empty, and
  the \<open>minLength\<close> and \<open>maxLength\<close> checks on a string compare its length strictly.
  A string whose length is exactly the bound fails either check. So
  \<open>validate({required: true, value: ""})\<close> and \<open>validate({value: "ab", minLength: 2})\<close>
  are false and \<open>validate({value: "abc", minLength: 2})\<close> is true.
\<close>

theorem validate_conjunction_strict_length:
  "(validate rt input \<longleftrightarrow>
     (truthy (required input) \<longrightarrow> trim (toString rt (value_v input)) \<noteq> []) \<and>
     (\<forall>m s. minLength input = Some m \<and> value_v input = Str s
        \<longrightarrow> js_greater (string_length s) m) \<and>
     (\<forall>m s. maxLength input = Some m \<and> value_v input = Str s
        \<longrightarrow> js_less (string_length s) m) \<and>
     (\<forall>m x. min_v input = Some m \<and> value_v input = Num x \<longrightarrow> js_greater x m) \<and>
     (\<forall>m x. max_v input = Some m \<and> value_v input = Num x \<longrightarrow> js_less x m)) \<and>
   (validate rt ((just (Str s))\<lparr>minLength := Some (Finite (of_nat k))\<rparr>) \<longleftrightarrow> k < length s) \<and>
   (validate rt ((just (Str s))\<lparr>maxLength := Some (Finite (of_nat k))\<rparr>) \<longleftrightarrow> length s < k) \<and>
   \<not> validate rt ((just (Str s))\<lparr>minLength := Some (Finite (of_nat (length s)))\<rparr>) \<and>
   \<not> validate rt ((just (Str s))\<lparr>maxLength := Some (Finite (of_nat (length s)))\<rparr>) \<and>
   validate rt ((just (Str (ascii '''')))\<lparr>required := Some True\<rparr>) = False \<and>
   validate rt ((just (Str (ascii ''ab'')))\<lparr>minLength := Some (Finite 2)\<rparr>) = False \<and>
   validate rt ((just (Str (ascii ''abc'')))\<lparr>minLength := Some (Finite 2)\<rparr>) = True"
proof -
  have a: "validate rt ((just (Str s))\<lparr>minLength := Some (Finite (of_nat k))\<rparr>) \<longleftrightarrow> k < length s"
    for s k
    by (simp add: validate_unfold just_def string_length_greater)
  have b: "validate rt ((just (Str s))\<lparr>maxLength := Some (Finite (of_nat k))\<rparr>) \<longleftrightarrow> length s < k"
    for s k
    by (simp add: validate_unfold just_def string_length_less)
  have c: "validate rt ((just (Str (ascii '''')))\<lparr>required := Some True\<rparr>) = False"
    by (simp add: validate_unfold just_def trim_def ascii_def)
  have d: "validate rt ((just (Str (ascii ''ab'')))\<lparr>minLength := Some (Finite 2)\<rparr>) = False"
    using a [where s = "ascii ''ab''" and k = 2] by (simp add: ascii_def)
  have e: "validate rt ((just (Str (ascii ''abc'')))\<lparr>minLength := Some (Finite 2)\<rparr>) = True"
    using a [where s = "ascii ''abc''" and k = 2] by (simp add: ascii_def)
  show ?thesis
    using validate_unfold [of rt input] a [where s = s and k = k] b [where s = s and k = k]
      a [where s = s and k = "length s"] b [where s = s and k = "length s"] c d e
    by blast
qed

theorem validate_conjunction_strict_length_witness:
  "truthy (Some True) \<and>
   validate example_runtime
     ((just (Str (ascii ''abcd'')))\<lparr>required := Some True, minLength := Some (Finite 3),
        maxLength := Some (Finite 5)\<rparr>) \<and>
   \<not> validate example_runtime
     ((just (Str (ascii ''abcd'')))\<lparr>required := Some True, minLength := Some (Finite 3),
        maxLength := Some (Finite 4)\<rparr>)"
  using validate_conjunction_strict_length [where rt = example_runtime and s = "ascii ''abcd''"
      and k = 4 and input = "(just (Str (ascii ''abcd'')))\<lparr>required := Some True,
         minLength := Some (Finite 3), maxLength := Some (Finite 5)\<rparr>"]
    validate_conjunction_strict_length [where rt = example_runtime and s = "ascii ''abcd''"
      and k = 4 and input = "(just (Str (ascii ''abcd'')))\<lparr>required := Some True,
         minLength := Some (Finite 3), maxLength := Some (Finite 4)\<rparr>"]
  by (simp add: just_def ascii_def trim_def isWhiteSpace_def string_length_def js_greater_def)

lemma js_less_irrefl: "\<not> js_less n n"
  by (cases n) simp_all

lemma validate_required_number: "validate rt ((just (Num n))\<lparr>required := Some True\<rparr>)"
  by (simp add: validate_unfold just_def trim_Number_toString)

lemma example_toString_3: "Number_toString example_runtime (Finite 3) = ascii ''3''"
  by (simp add: example_runtime_def formatDigits_def decimal_def digits10.simps [of 3]
      digitChar_def ascii_def)

lemma example_toString_half:
  "Number_toString example_runtime (Finite (1 / 2)) = ascii ''0.5''"
  by (simp add: example_runtime_def formatDigits_def decimal_def digits10.simps [of 5]
      digitChar_def ascii_def)

text \<open>
  C3. For every number \<open>n\<close>, a \<open>min\<close> constraint \<open>m\<close> is passed exactly when
  \<open>n > m\<close> and a \<open>max\<close> constraint \<open>M\<close> exactly when \<open>n < M\<close>, as JavaScript compares
  numbers: on finite values the strict order of the values, and never true of a number
  and itself. Whatever the other fields of the input are, a number equal to its bound
  is rejected, and an input that passes has its number strictly between the bounds. In
  particular \<open>validate({value: 0, min: 0})\<close> is false.
\<close>

theorem validate_min_max_strict:
  "(validate rt ((just (Num n))\<lparr>min_v := Some m\<rparr>) \<longleftrightarrow> js_greater n m) \<and>
   (validate rt ((just (Num n))\<lparr>max_v := Some M\<rparr>) \<longleftrightarrow> js_less n M) \<and>
   (js_greater (Finite x) (Finite y) \<longleftrightarrow> y < x) \<and>
   (js_less (Finite x) (Finite y) \<longleftrightarrow> x < y) \<and>
   \<not> js_greater n n \<and> \<not> js_less n n \<and>
   \<not> validate rt (input\<lparr>value_v := Num n, min_v := Some n\<rparr>) \<and>
   \<not> validate rt (input\<lparr>value_v := Num n, max_v := Some n\<rparr>) \<and>
   (validate rt (input\<lparr>value_v := Num n, min_v := Some m, max_v := Some M\<rparr>)
      \<longrightarrow> js_greater n m \<and> js_less n M) \<and>
   validate rt ((just (Num (Finite 0)))\<lparr>min_v := Some (Finite 0)\<rparr>) = False"
  by (simp add: validate_unfold just_def js_greater_def js_less_irrefl)

theorem validate_min_max_strict_witness:
  "validate example_runtime
     ((just (Num (Finite 1)))\<lparr>min_v := Some (Finite 0), max_v := Some (Finite 2)\<rparr>) \<and>
   js_greater (Finite 1) (Finite 0) \<and> js_less (Finite 1) (Finite 2)"
  using validate_min_max_strict [where rt = example_runtime and input = "just (Num (Finite 1))"
      and n = "Finite 1" and m = "Finite 0" and M = "Finite 2"]
  by (simp add: validate_unfold just_def js_greater_def)

text \<open>
  C10. A constraint whose type does not match the value is skipped, not failed. On a
  number the result of \<open>validate\<close> does not depend on \<open>minLength\<close> and \<open>maxLength\<close>,
  and on a string it does not depend on \<open>min\<close> and \<open>max\<close>; with no other constraint
  the result is true. So \<open>validate({value: 3, minLength: 10})\<close> and
  \<open>validate({value: "abc", min: 100})\<close> are true.
\<close>

theorem validate_skips_mismatched_constraints:
  "validate rt (input\<lparr>value_v := Num n, minLength := k, maxLength := k'\<rparr>)
     = validate rt (input\<lparr>value_v := Num n, minLength := None, maxLength := None\<rparr>) \<and>
   validate rt (input\<lparr>value_v := Str s, min_v := m, max_v := m'\<rparr>)
     = validate rt (input\<lparr>value_v := Str s, min_v := None, max_v := None\<rparr>) \<and>
   validate rt ((just (Num n))\<lparr>minLength := k\<rparr>) = True \<and>
   validate rt ((just (Num n))\<lparr>maxLength := k\<rparr>) = True \<and>
   validate rt ((just (Str s))\<lparr>min_v := m\<rparr>) = True \<and>
   validate rt ((just (Str s))\<lparr>max_v := m\<rparr>) = True \<and>
   validate rt ((just (Num (Finite 3)))\<lparr>minLength := Some (Finite 10)\<rparr>) = True \<and>
   validate rt ((just (Str (ascii ''abc'')))\<lparr>min_v := Some (Finite 100)\<rparr>) = True"
  by (simp add: validate_unfold just_def)

theorem validate_skips_mismatched_constraints_witness:
  "validate example_runtime
     ((just (Num (Finite 3)))\<lparr>required := Some True, minLength := Some (Finite 10),
        maxLength := Some (Finite 0)\<rparr>) \<and>
   validate example_runtime
     ((just (Str (ascii ''abc'')))\<lparr>required := Some True, min_v := Some (Finite 100),
        max_v := Some (Finite 0)\<rparr>)"
proof -
  have a: "validate example_runtime ((just (Num (Finite 3)))\<lparr>required := Some True\<rparr>)"
    by (simp add: validate_unfold just_def example_toString_3 trim_Nil_iff ascii_def
        isWhiteSpace_def del: Number_toString.simps)
  have b: "validate example_runtime ((just (Str (ascii ''abc'')))\<lparr>required := Some True\<rparr>)"
    by (simp add: validate_unfold just_def trim_Nil_iff ascii_def isWhiteSpace_def)
  show ?thesis
    using validate_skips_mismatched_constraints [where rt = example_runtime
        and input = "(just (Num (Finite 3)))\<lparr>required := Some True\<rparr>" and n = "Finite 3"
        and s = "ascii ''abc''" and k = "Some (Finite 10)" and k' = "Some (Finite 0)"
        and m = "Some (Finite 100)" and m' = "Some (Finite 0)"]
      validate_skips_mismatched_constraints [where rt = example_runtime
        and input = "(just (Str (ascii ''abc'')))\<lparr>required := Some True\<rparr>" and n = "Finite 3"
        and s = "ascii ''abc''" and k = "Some (Finite 10)" and k' = "Some (Finite 0)"
        and m = "Some (Finite 100)" and m' = "Some (Finite 0)"]
      a b
    by (simp add: just_def)
qed

section \<open>Properties of the store\<close>

lemma notify_loggers:
  "notify (map (\<lambda>(i, g). logger i g) igs) ps tr = tr @ map (\<lambda>(i, g). (i, ps)) igs"
  by (induction igs arbitrary: tr) (auto simp: logger_def slice_def)


lemma getInstance_idem: "getInstance (snd (getInstance m)) = getInstance m"
  by (auto simp: getInstance_def Let_def split: option.splits)

lemma getInstance_Some: "instance_ref m = Some a \<Longrightarrow> getInstance m = (a, m)"
  by (simp add: getInstance_def)

lemma getInstance_sets: "instance_ref (snd (getInstance m)) = Some (fst (getInstance m))"
  by (auto simp: getInstance_def Let_def split: option.splits)

lemma exec_keeps_instance:
  "instance_ref m = Some a \<Longrightarrow>
     instance_ref (fst (exec rt c (m, w))) = Some a \<and>
     length (heap (fst (exec rt c (m, w)))) = length (heap m)"
  by (cases c) (simp_all add: getInstance_Some ref_addListener_def ref_addProject_def Let_def)

lemma run_keeps_instance:
  "instance_ref (fst c) = Some a \<Longrightarrow>
     instance_ref (fst (run rt cs c)) = Some a \<and>
     length (heap (fst (run rt cs c))) = length (heap (fst c))"
proof (induction cs arbitrary: c)
  case Nil
  then show ?case by simp
next
  case (Cons x xs)
  obtain m w where c: "c = (m, w)" by (cases c)
  with Cons.prems have "instance_ref m = Some a" by simp
  from exec_keeps_instance [OF this, of rt x w] Cons.IH [of "exec rt x c"] c
  show ?case by simp
qed

text \<open>
  C7. \<open>getInstance\<close> is idempotent: a second call returns the reference of the first
  and leaves the memory as the first call left it. The reference stays the same, and no
  further store is allocated, whatever calls are made on the store in between. The
  first call of the program allocates the one store, empty.
\<close>

theorem getInstance_idempotent:
  "getInstance (snd (getInstance m)) = getInstance m \<and>
   fst (getInstance (fst (run rt cs (snd (getInstance m), w)))) = fst (getInstance m) \<and>
   length (heap (fst (run rt cs (snd (getInstance m), w))))
     = length (heap (snd (getInstance m))) \<and>
   getInstance init_memory = (0, \<lparr>instance_ref = Some 0, heap = [new_ProjectState]\<rparr>)"
proof -
  have i: "instance_ref (fst (snd (getInstance m), w)) = Some (fst (getInstance m))"
    by (simp add: getInstance_sets)
  from run_keeps_instance [OF i, of rt cs]
  show ?thesis
    by (simp add: getInstance_idem getInstance_Some) (simp add: getInstance_def init_memory_def)
qed

theorem getInstance_idempotent_witness:
  "fst (getInstance (fst (run example_runtime
       [AddProject (ascii ''T'') (ascii ''Desc text'') (Finite 3) (Finite (1 / 2)), GetInstance]
       (snd (getInstance (init_memory :: (nat \<times> project list) list memory)), [])))) = 0 \<and>
   fst (getInstance (init_memory :: (nat \<times> project list) list memory)) = 0 \<and>
   length (heap (fst (run example_runtime
       [AddProject (ascii ''T'') (ascii ''Desc text'') (Finite 3) (Finite (1 / 2)), GetInstance]
       (snd (getInstance (init_memory :: (nat \<times> project list) list memory)), [])))) = 1"
  using getInstance_idempotent [where m = "init_memory :: (nat \<times> project list) list memory"
      and rt = example_runtime and w = "[]"
      and cs = "[AddProject (ascii ''T'') (ascii ''Desc text'') (Finite 3) (Finite (1 / 2)), GetInstance]"]
  by (simp add: getInstance_def init_memory_def Let_def)

lemma wf_getInstance:
  "wf_memory m \<Longrightarrow>
     wf_memory (snd (getInstance m)) \<and>
     fst (getInstance m) < length (heap (snd (getInstance m)))"
  by (auto simp: wf_memory_def getInstance_def Let_def split: option.splits)

lemma subscribers_getInstance: "subscribers (snd (getInstance m)) = subscribers m"
  by (auto simp: subscribers_def getInstance_def Let_def new_ProjectState_def split: option.splits)

lemma stored_getInstance: "stored (snd (getInstance m)) = stored m"
  by (auto simp: stored_def getInstance_def Let_def new_ProjectState_def split: option.splits)

lemma ref_addListener_valid:
  "instance_ref m = Some a \<Longrightarrow> a < length (heap m) \<Longrightarrow>
     subscribers (ref_addListener a f m) = subscribers m @ [f] \<and>
     stored (ref_addListener a f m) = stored m \<and>
     wf_memory (ref_addListener a f m)"
  by (simp add: ref_addListener_def subscribers_def stored_def wf_memory_def addListener_def)

lemma ref_addProject_valid:
  "instance_ref m = Some a \<Longrightarrow> a < length (heap m) \<Longrightarrow>
     subscribers (fst (ref_addProject rt a t d n rnd (m, w))) = subscribers m \<and>
     stored (fst (ref_addProject rt a t d n rnd (m, w)))
       = stored m @ [Project (Number_toString rt rnd) t d n Active] \<and>
     snd (ref_addProject rt a t d n rnd (m, w))
       = notify (subscribers m) (stored m @ [Project (Number_toString rt rnd) t d n Active]) w \<and>
     wf_memory (fst (ref_addProject rt a t d n rnd (m, w)))"
  by (simp add: ref_addProject_def subscribers_def stored_def wf_memory_def addProject_def Let_def)

lemma exec_AddListener:
  assumes "wf_memory m"
  shows "snd (exec rt (AddListener f) (m, w)) = w \<and>
     subscribers (fst (exec rt (AddListener f) (m, w))) = subscribers m @ [f] \<and>
     stored (fst (exec rt (AddListener f) (m, w))) = stored m \<and>
     wf_memory (fst (exec rt (AddListener f) (m, w)))"
  using wf_getInstance [OF assms]
    ref_addListener_valid [OF getInstance_sets [of m], of f]
  by (simp add: Let_def subscribers_getInstance stored_getInstance)

lemma exec_AddProject:
  assumes "wf_memory m"
  shows "subscribers (fst (exec rt (AddProject t d n rnd) (m, w))) = subscribers m \<and>
     stored (fst (exec rt (AddProject t d n rnd) (m, w)))
       = stored m @ [Project (Number_toString rt rnd) t d n Active] \<and>
     snd (exec rt (AddProject t d n rnd) (m, w))
       = notify (subscribers m) (stored m @ [Project (Number_toString rt rnd) t d n Active]) w \<and>
     wf_memory (fst (exec rt (AddProject t d n rnd) (m, w)))"
  using wf_getInstance [OF assms]
    ref_addProject_valid [OF getInstance_sets [of m], of rt t d n rnd w]
  by (simp add: Let_def subscribers_getInstance stored_getInstance)

lemma exec_GetInstance:
  assumes "wf_memory m"
  shows "snd (exec rt GetInstance (m, w)) = w \<and>
     subscribers (fst (exec rt GetInstance (m, w))) = subscribers m \<and>
     stored (fst (exec rt GetInstance (m, w))) = stored m \<and>
     wf_memory (fst (exec rt GetInstance (m, w)))"
  using wf_getInstance [OF assms]
  by (simp add: subscribers_getInstance stored_getInstance)

lemma exec_subscribers:
  assumes "wf_memory (fst c)"
  shows "subscribers (fst (exec rt x c)) = subscribers (fst c) @ registered [x] \<and>
     wf_memory (fst (exec rt x c))"
proof -
  obtain m w where c: "c = (m, w)" by (cases c)
  with assms have wf: "wf_memory m" by simp
  show ?thesis
    using exec_AddListener [OF wf, of rt _ w] exec_AddProject [OF wf, of rt _ _ _ _ w]
      exec_GetInstance [OF wf, of rt w] c
    by (cases x) simp_all
qed

lemma registered_Cons: "registered (x # xs) = registered [x] @ registered xs"
  by (cases x) simp_all

lemma run_subscribers:
  "wf_memory (fst c) \<Longrightarrow>
     subscribers (fst (run rt cs c)) = subscribers (fst c) @ registered cs \<and>
     wf_memory (fst (run rt cs c))"
proof (induction cs arbitrary: c)
  case Nil
  then show ?case by simp
next
  case (Cons x xs)
  from exec_subscribers [OF Cons.prems, of rt x]
  have e: "subscribers (fst (exec rt x c)) = subscribers (fst c) @ registered [x]"
    and wf: "wf_memory (fst (exec rt x c))" by simp_all
  from Cons.IH [OF wf] e show ?case
    by (simp add: registered_Cons [of x xs])
qed



lemma validate_validPeople: "validate rt (validPeople rt p)"
  by (simp add: validPeople_def validate_required_number)

lemma gatherUsersInput_valid:
  "validate rt (validTitle (titleInput w)) \<Longrightarrow>
   validate rt (validDescription (descriptionInput w)) \<Longrightarrow>
     gatherUsersInput rt w
       = (Some (titleInput w, descriptionInput w, toNumber rt (peopleInput w)), w)"
  by (simp add: gatherUsersInput_def validate_validPeople)

lemma gatherUsersInput_invalid:
  "\<not> (validate rt (validTitle (titleInput w)) \<and>
      validate rt (validDescription (descriptionInput w))) \<Longrightarrow>
     gatherUsersInput rt w
       = (None, w\<lparr>console := console w @ [LogBool (validate rt (validPeople rt (peopleInput w)))],
                  alerts := alerts w @ [ascii ''invalid input'']\<rparr>)"
  by (auto simp: gatherUsersInput_def Let_def)

lemma ref_addProject_projects:
  "a < length (heap m) \<Longrightarrow>
     projects (heap (fst (ref_addProject rt a t d n rnd (m, w))) ! a)
       = projects (heap m ! a) @ [Project (Number_toString rt rnd) t d n Active]"
  by (simp add: ref_addProject_def addProject_def Let_def)

lemma example_valid_title: "validate rt (validTitle (ascii ''T''))"
  by (simp add: validTitle_def validate_unfold just_def trim_Nil_iff ascii_def isWhiteSpace_def)

lemma example_valid_description: "validate rt (validDescription (ascii ''Desc text''))"
  by (simp add: validDescription_def validate_unfold just_def trim_Nil_iff ascii_def
      isWhiteSpace_def string_length_def js_greater_def)

lemma example_invalid_description: "\<not> validate rt (validDescription (ascii ''abc''))"
  by (simp add: validDescription_def validate_unfold just_def ascii_def string_length_def
      js_greater_def)

text \<open>
  C6. The submit handler, on a store that exists. If the three validations pass, the
  store changes as by \<open>addProject\<close> with the title, the description and the people
  text coerced to a number, so that project is appended, and afterwards the three inputs
  are empty. If a validation fails, the memory is unchanged, so no project is added, and
  the world changes only by one alert \<open>invalid input\<close> and one console line (and the
  count of suppressed events): the inputs keep their values and no listener has run.
\<close>

theorem submitHandler_adds_or_alerts:
  assumes "a < length (heap m)"
  shows
  "(validate rt (validTitle (titleInput w)) \<and>
    validate rt (validDescription (descriptionInput w)) \<and>
    validate rt (validPeople rt (peopleInput w)) \<longrightarrow>
      (let s = ref_addProject rt a (titleInput w) (descriptionInput w)
                 (toNumber rt (peopleInput w)) rnd (m, w\<lparr>suppressed := suppressed w + 1\<rparr>);
           r = submitHandler rt a rnd (m, w)
       in fst r = fst s \<and>
          projects (heap (fst r) ! a)
            = projects (heap m ! a) @
              [Project (Number_toString rt rnd) (titleInput w) (descriptionInput w)
                 (toNumber rt (peopleInput w)) Active] \<and>
          snd r = clearInputs ((snd s)\<lparr>console := console (snd s) @
                    [LogInput (titleInput w) (descriptionInput w) (toNumber rt (peopleInput w))]\<rparr>) \<and>
          titleInput (snd r) = [] \<and> descriptionInput (snd r) = [] \<and> peopleInput (snd r) = [])) \<and>
   (\<not> (validate rt (validTitle (titleInput w)) \<and>
       validate rt (validDescription (descriptionInput w)) \<and>
       validate rt (validPeople rt (peopleInput w))) \<longrightarrow>
      (let r = submitHandler rt a rnd (m, w)
       in r = (m, w\<lparr>suppressed := suppressed w + 1,
                     console := console w @ [LogBool (validate rt (validPeople rt (peopleInput w)))],
                     alerts := alerts w @ [ascii ''invalid input'']\<rparr>) \<and>
          fst r = m \<and> alerts (snd r) = alerts w @ [ascii ''invalid input''] \<and>
          titleInput (snd r) = titleInput w \<and> descriptionInput (snd r) = descriptionInput w \<and>
          peopleInput (snd r) = peopleInput w \<and>
          assignedProjects (snd r) = assignedProjects w \<and> listItems (snd r) = listItems w))"
proof (intro conjI impI)
  assume v: "validate rt (validTitle (titleInput w)) \<and>
    validate rt (validDescription (descriptionInput w)) \<and>
    validate rt (validPeople rt (peopleInput w))"
  let ?w0 = "w\<lparr>suppressed := suppressed w + 1\<rparr>"
  from v have g: "gatherUsersInput rt ?w0
      = (Some (titleInput w, descriptionInput w, toNumber rt (peopleInput w)), ?w0)"
    using gatherUsersInput_valid [of rt ?w0] by simp
  show "let s = ref_addProject rt a (titleInput w) (descriptionInput w)
                 (toNumber rt (peopleInput w)) rnd (m, w\<lparr>suppressed := suppressed w + 1\<rparr>);
           r = submitHandler rt a rnd (m, w)
       in fst r = fst s \<and>
          projects (heap (fst r) ! a)
            = projects (heap m ! a) @
              [Project (Number_toString rt rnd) (titleInput w) (descriptionInput w)
                 (toNumber rt (peopleInput w)) Active] \<and>
          snd r = clearInputs ((snd s)\<lparr>console := console (snd s) @
                    [LogInput (titleInput w) (descriptionInput w) (toNumber rt (peopleInput w))]\<rparr>) \<and>
          titleInput (snd r) = [] \<and> descriptionInput (snd r) = [] \<and> peopleInput (snd r) = []"
    using ref_addProject_projects [OF assms, of rt "titleInput w" "descriptionInput w"
        "toNumber rt (peopleInput w)" rnd ?w0]
    unfolding submitHandler_def Let_def fst_conv snd_conv g
    by (simp add: clearInputs_def)
next
  assume n: "\<not> (validate rt (validTitle (titleInput w)) \<and>
       validate rt (validDescription (descriptionInput w)) \<and>
       validate rt (validPeople rt (peopleInput w)))"
  let ?w0 = "w\<lparr>suppressed := suppressed w + 1\<rparr>"
  from n have "\<not> (validate rt (validTitle (titleInput ?w0)) \<and>
      validate rt (validDescription (descriptionInput ?w0)))"
    by (simp add: validate_validPeople)
  from gatherUsersInput_invalid [OF this]
  have g: "gatherUsersInput rt ?w0
       = (None, ?w0\<lparr>console := console ?w0 @ [LogBool (validate rt (validPeople rt (peopleInput ?w0)))],
                  alerts := alerts ?w0 @ [ascii ''invalid input'']\<rparr>)" .
  show "let r = submitHandler rt a rnd (m, w)
       in r = (m, w\<lparr>suppressed := suppressed w + 1,
                     console := console w @ [LogBool (validate rt (validPeople rt (peopleInput w)))],
                     alerts := alerts w @ [ascii ''invalid input'']\<rparr>) \<and>
          fst r = m \<and> alerts (snd r) = alerts w @ [ascii ''invalid input''] \<and>
          titleInput (snd r) = titleInput w \<and> descriptionInput (snd r) = descriptionInput w \<and>
          peopleInput (snd r) = peopleInput w \<and>
          assignedProjects (snd r) = assignedProjects w \<and> listItems (snd r) = listItems w"
    unfolding submitHandler_def Let_def fst_conv snd_conv g
    by simp
qed

theorem submitHandler_adds_or_alerts_witness:
  "0 < length (heap (snd (getInstance (init_memory :: ui memory)))) \<and>
   validate example_runtime (validTitle (ascii ''T'')) \<and>
   validate example_runtime (validDescription (ascii ''Desc text'')) \<and>
   validate example_runtime (validPeople example_runtime (ascii ''3'')) \<and>
   projects (heap (fst (submitHandler example_runtime 0 (Finite (1 / 2))
       (snd (getInstance init_memory),
        init_ui\<lparr>titleInput := ascii ''T'', descriptionInput := ascii ''Desc text'',
                peopleInput := ascii ''3''\<rparr>))) ! 0)
     = [\<lparr>id_p = ascii ''0.5'', title = ascii ''T'', description = ascii ''Desc text'',
          people = Finite 3, status = Active\<rparr>] \<and>
   titleInput (snd (submitHandler example_runtime 0 (Finite (1 / 2))
       (snd (getInstance init_memory),
        init_ui\<lparr>titleInput := ascii ''T'', descriptionInput := ascii ''Desc text'',
                peopleInput := ascii ''3''\<rparr>))) = [] \<and>
   \<not> validate example_runtime (validDescription (ascii ''abc'')) \<and>
   submitHandler example_runtime 0 (Finite (1 / 2))
       (snd (getInstance init_memory),
        init_ui\<lparr>titleInput := ascii ''T'', descriptionInput := ascii ''abc'',
                peopleInput := ascii ''3''\<rparr>)
     = (snd (getInstance init_memory),
        init_ui\<lparr>titleInput := ascii ''T'', descriptionInput := ascii ''abc'',
                peopleInput := ascii ''3'', suppressed := 1, console := [LogBool True],
                alerts := [ascii ''invalid input'']\<rparr>)"
proof -
  let ?m = "snd (getInstance (init_memory :: ui memory))"
  have h: "0 < length (heap ?m)"
    by (simp add: getInstance_def init_memory_def Let_def)
  have p: "projects (heap ?m ! 0) = []"
    by (simp add: getInstance_def init_memory_def Let_def new_ProjectState_def)
  have n: "toNumber example_runtime (ascii ''3'') = Finite 3"
    by (simp add: example_runtime_def trim_Nil_iff ascii_def isWhiteSpace_def)
  show ?thesis
    using h p n
      submitHandler_adds_or_alerts [OF h, where rt = example_runtime and rnd = "Finite (1 / 2)"
        and w = "init_ui\<lparr>titleInput := ascii ''T'', descriptionInput := ascii ''Desc text'',
                peopleInput := ascii ''3''\<rparr>"]
      submitHandler_adds_or_alerts [OF h, where rt = example_runtime and rnd = "Finite (1 / 2)"
        and w = "init_ui\<lparr>titleInput := ascii ''T'', descriptionInput := ascii ''abc'',
                peopleInput := ascii ''3''\<rparr>"]
    by (simp add: Let_def example_valid_title example_valid_description
        example_invalid_description validate_validPeople example_toString_half Project_def
        init_ui_def clearInputs_def ref_addProject_def addProject_def getInstance_def
        init_memory_def new_ProjectState_def del: Number_toString.simps)
qed

lemma submitHandler_stores:
  assumes "a < length (heap m)" "validate rt (validTitle (titleInput w))"
    "validate rt (validDescription (descriptionInput w))"
  shows "projects (heap (fst (submitHandler rt a rnd (m, w))) ! a)
     = projects (heap m ! a) @
       [\<lparr>id_p = Number_toString rt rnd, title = titleInput w, description = descriptionInput w,
         people = toNumber rt (peopleInput w), status = Active\<rparr>]"
proof -
  let ?w0 = "w\<lparr>suppressed := suppressed w + 1\<rparr>"
  from assms have g: "gatherUsersInput rt ?w0
      = (Some (titleInput w, descriptionInput w, toNumber rt (peopleInput w)), ?w0)"
    using gatherUsersInput_valid [of rt ?w0] by simp
  show ?thesis
    using ref_addProject_projects [OF assms(1), of rt "titleInput w" "descriptionInput w"
        "toNumber rt (peopleInput w)" rnd ?w0]
    unfolding submitHandler_def Let_def fst_conv snd_conv g
    by (simp add: Project_def)
qed

lemma gatherUsersInput_result:
  "fst (gatherUsersInput rt w)
     = (if validate rt (validTitle (titleInput w)) \<and>
           validate rt (validDescription (descriptionInput w))
        then Some (titleInput w, descriptionInput w, toNumber rt (peopleInput w)) else None)"
  using gatherUsersInput_valid [of rt w] gatherUsersInput_invalid [of rt w]
  by (cases "validate rt (validTitle (titleInput w)) \<and>
      validate rt (validDescription (descriptionInput w))") simp_all

text \<open>
  C9. The headcount is checked with \<open>required\<close> alone: the object validated for it
  has no \<open>minLength\<close>, \<open>maxLength\<close>, \<open>min\<close> or \<open>max\<close>. For every number, 0,
  negative numbers and NaN among them, \<open>validate({value: n, required: true})\<close> is true,
  the string of a number being never empty after trimming. So the form accepts its input
  exactly when the title and the description are valid, whatever the people text is, and
  the project is stored with that text coerced to a number.
\<close>

theorem headcount_only_required:
  "validate rt ((just (Num n))\<lparr>required := Some True\<rparr>) \<and>
   validate rt ((just (Num (Finite 0)))\<lparr>required := Some True\<rparr>) \<and>
   validate rt ((just (Num (Finite (- 1))))\<lparr>required := Some True\<rparr>) \<and>
   validate rt ((just (Num NaN))\<lparr>required := Some True\<rparr>) \<and>
   validPeople rt p
     = \<lparr>value_v = Num (toNumber rt p), required = Some True, minLength = None,
        maxLength = None, min_v = None, max_v = None\<rparr> \<and>
   validate rt (validPeople rt p) \<and>
   fst (gatherUsersInput rt w)
     = (if validate rt (validTitle (titleInput w)) \<and>
           validate rt (validDescription (descriptionInput w))
        then Some (titleInput w, descriptionInput w, toNumber rt (peopleInput w)) else None) \<and>
   (a < length (heap m) \<and> validate rt (validTitle (titleInput w)) \<and>
    validate rt (validDescription (descriptionInput w)) \<longrightarrow>
      projects (heap (fst (submitHandler rt a rnd (m, w))) ! a)
        = projects (heap m ! a) @
          [\<lparr>id_p = Number_toString rt rnd, title = titleInput w,
            description = descriptionInput w, people = toNumber rt (peopleInput w),
            status = Active\<rparr>])"
  using submitHandler_stores [of a m rt w rnd] gatherUsersInput_result [of rt w]
  by (simp add: validate_required_number validate_validPeople) (simp add: validPeople_def just_def)

theorem headcount_only_required_witness:
  "0 < length (heap (snd (getInstance (init_memory :: ui memory)))) \<and>
   validate example_runtime (validTitle (ascii ''T'')) \<and>
   validate example_runtime (validDescription (ascii ''Desc text'')) \<and>
   toNumber example_runtime (ascii ''abc'') = NaN \<and>
   validate example_runtime (validPeople example_runtime (ascii ''abc'')) \<and>
   projects (heap (fst (submitHandler example_runtime 0 (Finite (1 / 2))
       (snd (getInstance init_memory),
        init_ui\<lparr>titleInput := ascii ''T'', descriptionInput := ascii ''Desc text'',
                peopleInput := ascii ''abc''\<rparr>))) ! 0)
     = [\<lparr>id_p = ascii ''0.5'', title = ascii ''T'', description = ascii ''Desc text'',
          people = NaN, status = Active\<rparr>]"
proof -
  let ?m = "snd (getInstance (init_memory :: ui memory))"
  let ?w = "init_ui\<lparr>titleInput := ascii ''T'', descriptionInput := ascii ''Desc text'',
                peopleInput := ascii ''abc''\<rparr>"
  note T = headcount_only_required [where rt = example_runtime and rnd = "Finite (1 / 2)"
        and a = 0 and m = ?m and p = "ascii ''abc''" and n = NaN and w = ?w]
  have h: "0 < length (heap ?m)"
    by (simp add: getInstance_def init_memory_def Let_def)
  have p: "projects (heap ?m ! 0) = []"
    by (simp add: getInstance_def init_memory_def Let_def new_ProjectState_def)
  have n: "toNumber example_runtime (ascii ''abc'') = NaN"
    by (simp add: example_runtime_def trim_Nil_iff ascii_def isWhiteSpace_def)
  have f: "titleInput ?w = ascii ''T''" "descriptionInput ?w = ascii ''Desc text''"
    "peopleInput ?w = ascii ''abc''"
    by (simp_all add: init_ui_def)
  from T have v: "validate example_runtime (validPeople example_runtime (ascii ''abc''))"
    by blast
  from T h example_valid_title [of example_runtime]
    example_valid_description [of example_runtime]
  have "projects (heap (fst (submitHandler example_runtime 0 (Finite (1 / 2)) (?m, ?w))) ! 0)
        = projects (heap ?m ! 0) @
          [\<lparr>id_p = Number_toString example_runtime (Finite (1 / 2)), title = titleInput ?w,
            description = descriptionInput ?w,
            people = toNumber example_runtime (peopleInput ?w), status = Active\<rparr>]"
    unfolding f by blast
  then have s: "projects (heap (fst (submitHandler example_runtime 0 (Finite (1 / 2)) (?m, ?w))) ! 0)
        = [\<lparr>id_p = ascii ''0.5'', title = ascii ''T'', description = ascii ''Desc text'',
             people = NaN, status = Active\<rparr>]"
    unfolding f p n example_toString_half by simp
  from h example_valid_title [of example_runtime]
    example_valid_description [of example_runtime] n v s
  show ?thesis by blast
qed

lemma foldl_listItems:
  "foldl (\<lambda>w' prjItems. w'\<lparr>listItems := (listItems w')(ty := listItems w' ty @ [title prjItems])\<rparr>) w xs
     = w\<lparr>listItems := (listItems w)(ty := listItems w ty @ map title xs)\<rparr>"
  by (induction xs arbitrary: w) simp_all

lemma renderProjects_map:
  "renderProjects ty w = w\<lparr>listItems := (listItems w)(ty := map title (assignedProjects w ty))\<rparr>"
  by (simp add: renderProjects_def Let_def foldl_listItems)

lemma ProjectList_listener_eq:
  "ProjectList_listener ty ps w
     = (ps, w\<lparr>assignedProjects := (assignedProjects w)
                  (ty := filter (\<lambda>prj. if ty = active then status prj = Active
                                        else status prj = Finished) ps),
               listItems := (listItems w)
                  (ty := map title (filter (\<lambda>prj. if ty = active then status prj = Active
                                        else status prj = Finished) ps))\<rparr>)"
  by (simp add: ProjectList_listener_def Let_def renderProjects_map)

lemma filter_Finished_Nil:
  "\<forall>p\<in>set ps. status p = Active \<Longrightarrow> filter (\<lambda>p. status p = Finished) ps = []"
  by (induction ps) auto

lemma notify_views:
  assumes "\<forall>p\<in>set ps. status p = Active"
  shows "assignedProjects (notify [ProjectList_listener active, ProjectList_listener finished] ps w) finished = [] \<and>
     listItems (notify [ProjectList_listener active, ProjectList_listener finished] ps w) finished = []"
  using filter_Finished_Nil [OF assms]
  by (simp add: ProjectList_listener_eq slice_def)

lemma main_inv: "app_inv (fst main) (snd main)"
  by (simp add: app_inv_def main_def Let_def getInstance_def init_memory_def new_ProjectList_def
      ref_addListener_def addListener_def new_ProjectState_def init_ui_def)

lemma ref_addProject_inv:
  assumes "app_inv a (m, w)" "assignedProjects w' finished = []" "listItems w' finished = []"
  shows "app_inv a (ref_addProject rt a t d n rnd (m, w'))"
proof -
  let ?ps = "projects (heap m ! a) @ [Project (Number_toString rt rnd) t d n Active]"
  from assms(1) have act: "\<forall>p\<in>set ?ps. status p = Active"
    by (auto simp: app_inv_def Project_def)
  from notify_views [OF act] assms(1) act show ?thesis
    by (simp add: app_inv_def ref_addProject_def addProject_def Let_def)
qed

lemma submitHandler_inv:
  assumes "app_inv a (m, w)"
  shows "app_inv a (submitHandler rt a rnd (m, w))"
proof (cases "validate rt (validTitle (titleInput w)) \<and>
      validate rt (validDescription (descriptionInput w))")
  case True
  let ?w0 = "w\<lparr>suppressed := suppressed w + 1\<rparr>"
  from True have g: "gatherUsersInput rt ?w0
      = (Some (titleInput w, descriptionInput w, toNumber rt (peopleInput w)), ?w0)"
    using gatherUsersInput_valid [of rt ?w0] by simp
  from assms have "assignedProjects ?w0 finished = []" "listItems ?w0 finished = []"
    by (simp_all add: app_inv_def)
  from ref_addProject_inv [OF assms this, of rt "titleInput w" "descriptionInput w"
      "toNumber rt (peopleInput w)" rnd]
  show ?thesis
    unfolding submitHandler_def Let_def fst_conv snd_conv g
    by (simp add: app_inv_def clearInputs_def)
next
  case False
  let ?w0 = "w\<lparr>suppressed := suppressed w + 1\<rparr>"
  from False have "\<not> (validate rt (validTitle (titleInput ?w0)) \<and>
      validate rt (validDescription (descriptionInput ?w0)))" by simp
  from gatherUsersInput_invalid [OF this]
  have g: "gatherUsersInput rt ?w0
       = (None, ?w0\<lparr>console := console ?w0 @ [LogBool (validate rt (validPeople rt (peopleInput ?w0)))],
                  alerts := alerts ?w0 @ [ascii ''invalid input'']\<rparr>)" .
  from assms show ?thesis
    unfolding submitHandler_def Let_def fst_conv snd_conv g
    by (simp add: app_inv_def)
qed

lemma submit_inv: "app_inv a c \<Longrightarrow> app_inv a (submit rt a x c)"
proof -
  assume i: "app_inv a c"
  obtain m w where c: "c = (m, w)" by (cases c)
  obtain t d p rnd where x: "x = (t, d, p, rnd)" by (cases x)
  from i c have "app_inv a (m, w\<lparr>titleInput := t, descriptionInput := d, peopleInput := p\<rparr>)"
    by (simp add: app_inv_def)
  from submitHandler_inv [OF this] c x show ?thesis by simp
qed

lemma session_inv: "app_inv a c \<Longrightarrow> app_inv a (session rt a xs c)"
  by (induction xs arbitrary: c) (simp_all add: submit_inv)

lemma example_session:
  "session example_runtime (fst main)
     [(ascii ''T'', ascii ''Desc text'', ascii ''3'', Finite (1 / 2))] (snd main)
   = (\<lparr>instance_ref = Some 0,
        heap = [\<lparr>listeners = [ProjectList_listener active, ProjectList_listener finished],
                 projects = [\<lparr>id_p = ascii ''0.5'', title = ascii ''T'',
                               description = ascii ''Desc text'', people = Finite 3,
                               status = Active\<rparr>]\<rparr>]\<rparr>,
      init_ui\<lparr>suppressed := 1,
        console := [LogInput (ascii ''T'') (ascii ''Desc text'') (Finite 3)],
        assignedProjects := (\<lambda>_. [])(active :=
           [\<lparr>id_p = ascii ''0.5'', title = ascii ''T'', description = ascii ''Desc text'',
              people = Finite 3, status = Active\<rparr>], finished := []),
        listItems := (\<lambda>_. [])(active := [ascii ''T''], finished := [])\<rparr>)"
proof -
  have n: "toNumber example_runtime (ascii ''3'') = Finite 3"
    by (simp add: example_runtime_def trim_Nil_iff ascii_def isWhiteSpace_def)
  have m: "main = (0, \<lparr>instance_ref = Some 0,
        heap = [\<lparr>listeners = [ProjectList_listener active, ProjectList_listener finished],
                 projects = []\<rparr>]\<rparr>, init_ui)"
    by (simp add: main_def Let_def getInstance_def init_memory_def new_ProjectList_def
      ref_addListener_def addListener_def new_ProjectState_def init_ui_def fun_eq_iff)
  let ?w = "init_ui\<lparr>titleInput := ascii ''T'', descriptionInput := ascii ''Desc text'',
      peopleInput := ascii ''3'', suppressed := 1\<rparr>"
  have g: "gatherUsersInput example_runtime ?w = (Some (ascii ''T'', ascii ''Desc text'', Finite 3), ?w)"
    using gatherUsersInput_valid [of example_runtime ?w] n
    by (simp add: example_valid_title example_valid_description init_ui_def)
  show ?thesis
    unfolding m
    by (simp add: submitHandler_def Let_def gatherUsersInput_def n example_valid_title
        example_valid_description validate_validPeople ref_addProject_def addProject_def
        ProjectList_listener_eq slice_def Project_def example_toString_half clearInputs_def
        init_ui_def fun_eq_iff del: Number_toString.simps)
qed

lemma abs3_getInstance:
  "getInstance (abs3 m) = (fst (getInstance3 m), abs3 (snd (getInstance3 m)))"
  by (auto simp: getInstance_def getInstance3_def abs3_def Let_def abs3_obj_def
      new_ProjectState_def new_ProjectState3_def split: option.splits)

lemma abs3_ref_addListener:
  "a < length (heap3 m) \<Longrightarrow> ref_addListener a f (abs3 m) = abs3 (ref_addListener3 a f m)"
  by (simp add: ref_addListener_def ref_addListener3_def abs3_def abs3_obj_def addListener_def
      State_addListener_def map_update)

lemma abs3_ref_addProject:
  "a < length (heap3 m) \<Longrightarrow>
     ref_addProject rt a t d n rnd (abs3 m, w)
       = (abs3 (fst (ref_addProject3 rt a t d n rnd (m, w))),
          snd (ref_addProject3 rt a t d n rnd (m, w)))"
  by (simp add: ref_addProject_def ref_addProject3_def abs3_def abs3_obj_def addProject_def
      addProject3_def Let_def map_update)

lemma abs3_exec:
  assumes "wf_memory (abs3 m)"
  shows "exec rt c (abs3 m, w) = (abs3 (fst (exec3 rt c (m, w))), snd (exec3 rt c (m, w)))"
proof -
  from wf_getInstance [OF assms]
  have v: "fst (getInstance3 m) < length (heap3 (snd (getInstance3 m)))"
    by (simp add: abs3_getInstance) (simp add: abs3_def)
  show ?thesis
    using abs3_ref_addListener [OF v] abs3_ref_addProject [OF v]
    by (cases c) (simp_all add: abs3_getInstance Let_def)
qed

lemma abs3_run:
  "wf_memory (abs3 m) \<Longrightarrow>
     run rt cs (abs3 m, w) = (abs3 (fst (run3 rt cs (m, w))), snd (run3 rt cs (m, w)))"
proof (induction cs arbitrary: m w)
  case Nil
  then show ?case by simp
next
  case (Cons x xs)
  obtain m' w' where e: "exec3 rt x (m, w) = (m', w')" by (cases "exec3 rt x (m, w)")
  from abs3_exec [OF Cons.prems, of rt x w] e
  have s: "exec rt x (abs3 m, w) = (abs3 m', w')" by simp
  from exec_subscribers [of "(abs3 m, w)" rt x] Cons.prems s
  have "wf_memory (abs3 m')" by simp
  from Cons.IH [OF this, of w'] s e show ?case by simp
qed

lemma abs0_getInstance:
  "getInstance0 (abs0 m) = (fst (getInstance m), abs0 (snd (getInstance m)))"
  by (auto simp: getInstance_def getInstance0_def abs0_def Let_def abs0_obj_def
      new_ProjectState_def new_ProjectState0_def split: option.splits)

lemma abs0_ref_addProject:
  "a < length (heap m) \<Longrightarrow>
     ref_addProject0 rt a t d n rnd (abs0 m)
       = abs0 (fst (ref_addProject rt a t d n rnd (m, w)))"
  by (simp add: ref_addProject_def ref_addProject0_def abs0_def abs0_obj_def addProject_def
      addProject0_def Let_def map_update without_status_def Project_def)

lemma abs0_exec:
  assumes "wf_memory m" "\<not> is_AddListener c"
  shows "exec0 rt c (abs0 m) = Inr (abs0 (fst (exec rt c (m, w))))"
proof -
  from wf_getInstance [OF assms(1)]
  have v: "fst (getInstance m) < length (heap (snd (getInstance m)))" by simp
  show ?thesis
    using abs0_ref_addProject [OF v] assms(2)
    by (cases c) (simp_all add: abs0_getInstance Let_def is_AddListener_def)
qed

lemma exec_quiet:
  assumes "wf_memory m" "subscribers m = []" "\<not> is_AddListener c"
  shows "snd (exec rt c (m, w)) = w \<and> subscribers (fst (exec rt c (m, w))) = [] \<and>
     wf_memory (fst (exec rt c (m, w)))"
  using exec_AddProject [OF assms(1), of rt _ _ _ _ w] exec_GetInstance [OF assms(1), of rt w]
    assms(2,3)
  by (cases c) (simp_all add: is_AddListener_def)

lemma abs0_run:
  "wf_memory m \<Longrightarrow> subscribers m = [] \<Longrightarrow> \<forall>c\<in>set cs. \<not> is_AddListener c \<Longrightarrow>
     run0 rt cs (abs0 m) = Inr (abs0 (fst (run rt cs (m, w)))) \<and> snd (run rt cs (m, w)) = w"
proof (induction cs arbitrary: m)
  case Nil
  then show ?case by simp
next
  case (Cons x xs)
  from Cons.prems have nx: "\<not> is_AddListener x" and nxs: "\<forall>c\<in>set xs. \<not> is_AddListener c"
    by simp_all
  obtain m' w' where e: "exec rt x (m, w) = (m', w')" by (cases "exec rt x (m, w)")
  from exec_quiet [OF Cons.prems(1,2) nx, of rt w] e
  have q: "w' = w" "subscribers m' = []" "wf_memory m'" by simp_all
  from abs0_exec [OF Cons.prems(1) nx, of rt w] e
  have s: "exec0 rt x (abs0 m) = Inr (abs0 m')" by simp
  from Cons.IH [OF q(3) q(2) nxs] s e q(1) show ?case by simp
qed

lemma run0_TypeError:
  "\<exists>c\<in>set cs. is_AddListener c \<Longrightarrow> run0 rt cs m = Inl TypeError"
proof (induction cs arbitrary: m)
  case Nil
  then show ?case by simp
next
  case (Cons x xs)
  show ?case
  proof (cases x)
    case GetInstance
    with Cons show ?thesis by (simp add: is_AddListener_def)
  next
    case (AddListener f)
    then show ?thesis by simp
  next
    case (AddProject t d n rnd)
    with Cons show ?thesis by (simp add: is_AddListener_def Let_def)
  qed
qed

lemma stored0_abs0: "wf_memory m \<Longrightarrow> stored0 (abs0 m) = map without_status (stored m)"
  by (auto simp: stored0_def stored_def abs0_def abs0_obj_def wf_memory_def split: option.splits)

lemma wf_init: "wf_memory init_memory"
  by (simp add: wf_memory_def init_memory_def)

text \<open>
  C5, as amended. The intermediate and the final version of the store are equivalent:
  from the initial memories, the same calls of \<open>getInstance\<close>, \<open>addListener\<close> and
  \<open>addProject\<close> leave the same store (reference, listeners and projects) and the same
  world, so the same notifications. The earliest version has no \<open>addListener\<close>: calls
  that contain one end in a \<open>TypeError\<close>. On calls of \<open>getInstance\<close> and
  \<open>addProject\<close> alone it holds the same reference and stores the same projects without
  their status, and neither version notifies anybody.
\<close>

theorem later_versions_equivalent:
  "abs3 (fst (run3 rt cs (init_memory3, w :: 'w))) = fst (run rt cs (init_memory, w)) \<and>
   snd (run3 rt cs (init_memory3, w)) = snd (run rt cs (init_memory, w)) \<and>
   ((\<forall>c\<in>set cs. \<not> is_AddListener c) \<longrightarrow>
      run0 rt cs init_memory0 = Inr (abs0 (fst (run rt cs (init_memory, w)))) \<and>
      stored0 (abs0 (fst (run rt cs (init_memory, w))))
        = map without_status (stored (fst (run rt cs (init_memory, w)))) \<and>
      snd (run rt cs (init_memory, w)) = w) \<and>
   ((\<exists>c\<in>set cs. is_AddListener c) \<longrightarrow> run0 rt cs init_memory0 = Inl TypeError)"
proof -
  have i3: "abs3 init_memory3 = (init_memory :: 'w memory)"
    by (simp add: abs3_def init_memory3_def init_memory_def)
  have i0: "abs0 (init_memory :: 'w memory) = init_memory0"
    by (simp add: abs0_def init_memory0_def init_memory_def)
  have s: "subscribers (init_memory :: 'w memory) = []"
    by (simp add: subscribers_def init_memory_def)
  have wi: "wf_memory (init_memory :: 'w memory)"
    by (rule wf_init)
  have wf: "wf_memory (fst (run rt cs (init_memory, w)))"
    using run_subscribers [of "(init_memory, w)" rt cs] wi by simp
  from abs3_run [of init_memory3 rt cs w] wi
  have a: "run rt cs (init_memory, w)
      = (abs3 (fst (run3 rt cs (init_memory3, w))), snd (run3 rt cs (init_memory3, w)))"
    by (simp add: i3)
  have b: "(\<forall>c\<in>set cs. \<not> is_AddListener c) \<longrightarrow>
      run0 rt cs init_memory0 = Inr (abs0 (fst (run rt cs (init_memory, w)))) \<and>
      snd (run rt cs (init_memory, w)) = w"
    using abs0_run [OF wi s, of cs rt w] by (simp add: i0)
  from a have a1: "abs3 (fst (run3 rt cs (init_memory3, w))) = fst (run rt cs (init_memory, w))"
    and a2: "snd (run3 rt cs (init_memory3, w)) = snd (run rt cs (init_memory, w))"
    by simp_all
  from a1 a2 b stored0_abs0 [OF wf] run0_TypeError [of cs rt init_memory0]
  show ?thesis by blast
qed

text \<open>
  The claim C5 as stated fails for the earliest version: after one \<open>addProject\<close> its
  stored object has no status where the later versions store \<open>Active\<close>, and a
  sequence with \<open>addListener\<close> fails in it while the later versions notify the listener.
\<close>

theorem earliest_version_differs:
  "\<not> same_behaviour_earliest example_runtime
       [AddProject (ascii ''T'') (ascii ''Desc text'') (Finite 3) (Finite (1 / 2))] \<and>
   \<not> same_behaviour_earliest example_runtime
       [AddListener (logger 0 (\<lambda>ps. ps)),
        AddProject (ascii ''T'') (ascii ''Desc text'') (Finite 3) (Finite (1 / 2))]"
  by (simp add: same_behaviour_earliest_def Let_def getInstance_def getInstance0_def
      init_memory_def init_memory0_def ref_addProject_def ref_addProject0_def addProject_def
      addProject0_def stored_def stored0_def properties0_def properties_of_def Project_def
      new_ProjectState_def new_ProjectState0_def)

theorem later_versions_equivalent_witness:
  "\<not> is_AddListener (GetInstance :: (nat \<times> project list) list call) \<and>
   \<not> is_AddListener (AddProject (ascii ''T'') (ascii ''Desc text'') (Finite 3) (Finite (1 / 2))
        :: (nat \<times> project list) list call) \<and>
   run0 example_runtime
     [GetInstance :: (nat \<times> project list) list call,
      AddProject (ascii ''T'') (ascii ''Desc text'') (Finite 3) (Finite (1 / 2))] init_memory0
     = Inr \<lparr>instance_ref0 = Some 0,
            heap0 = [\<lparr>projects0 = [\<lparr>id0 = ascii ''0.5'', title0 = ascii ''T'',
                                     description0 = ascii ''Desc text'',
                                     people0 = Finite 3\<rparr>]\<rparr>]\<rparr> \<and>
   is_AddListener (AddListener (logger 0 (\<lambda>ps. ps))) \<and>
   snd (run3 example_runtime
     [AddListener (logger 0 (\<lambda>ps. ps)),
      AddProject (ascii ''T'') (ascii ''Desc text'') (Finite 3) (Finite (1 / 2))]
     (init_memory3, []))
     = [(0, [\<lparr>id_p = ascii ''0.5'', title = ascii ''T'', description = ascii ''Desc text'',
               people = Finite 3, status = Active\<rparr>])] \<and>
   run0 example_runtime
     [AddListener (logger 0 (\<lambda>ps. ps)),
      AddProject (ascii ''T'') (ascii ''Desc text'') (Finite 3) (Finite (1 / 2))] init_memory0
     = Inl TypeError"
proof -
  let ?add = "AddProject (ascii ''T'') (ascii ''Desc text'') (Finite 3) (Finite (1 / 2))
        :: (nat \<times> project list) list call"
  let ?cs1 = "[GetInstance, ?add]"
  let ?cs2 = "[AddListener (logger 0 (\<lambda>ps. ps)), ?add]"
  note T1 = later_versions_equivalent [where rt = example_runtime and cs = ?cs1
      and w = "[] :: (nat \<times> project list) list"]
  note T2 = later_versions_equivalent [where rt = example_runtime and cs = ?cs2
      and w = "[] :: (nat \<times> project list) list"]
  have n: "\<not> is_AddListener (GetInstance :: (nat \<times> project list) list call)"
    "\<not> is_AddListener ?add" "is_AddListener (AddListener (logger 0 (\<lambda>ps. ps)))"
    by (simp_all add: is_AddListener_def)
  have e1: "abs0 (fst (run example_runtime ?cs1 (init_memory, [])))
      = \<lparr>instance_ref0 = Some 0,
            heap0 = [\<lparr>projects0 = [\<lparr>id0 = ascii ''0.5'', title0 = ascii ''T'',
                                     description0 = ascii ''Desc text'',
                                     people0 = Finite 3\<rparr>]\<rparr>]\<rparr>"
    by (simp add: getInstance_def init_memory_def ref_addProject_def addProject_def Let_def
        Project_def example_toString_half new_ProjectState_def abs0_def abs0_obj_def
        without_status_def del: Number_toString.simps)
  have e2: "snd (run example_runtime ?cs2 (init_memory, []))
      = [(0, [\<lparr>id_p = ascii ''0.5'', title = ascii ''T'', description = ascii ''Desc text'',
               people = Finite 3, status = Active\<rparr>])]"
    by (simp add: getInstance_def init_memory_def ref_addProject_def addProject_def Let_def
        Project_def example_toString_half new_ProjectState_def ref_addListener_def
        addListener_def logger_def slice_def del: Number_toString.simps)
  from T1 n have r1: "run0 example_runtime ?cs1 init_memory0
      = Inr (abs0 (fst (run example_runtime ?cs1 (init_memory, []))))"
    by simp
  from T2 have r2: "snd (run3 example_runtime ?cs2 (init_memory3, []))
      = snd (run example_runtime ?cs2 (init_memory, []))"
    by blast
  from T2 n have r3: "run0 example_runtime ?cs2 init_memory0 = Inl TypeError"
    by simp
  from n r1 [unfolded e1] r2 [unfolded e2] r3 show ?thesis by blast
qed

section \<open>The string of a number determines the number\<close>

lemma digits10_value: "foldl (\<lambda>a d. 10 * a + d) 0 (digits10 m) = m"
proof (induction m rule: digits10.induct)
  case (1 m)
  show ?case
  proof (cases "m < 10")
    case True
    then show ?thesis by (subst digits10.simps) simp
  next
    case False
    with 1 show ?thesis by (subst digits10.simps) simp
  qed
qed

lemma digits10_inj: "digits10 a = digits10 b \<Longrightarrow> a = b"
proof -
  assume e: "digits10 a = digits10 b"
  have "a = foldl (\<lambda>a d. 10 * a + d) 0 (digits10 a)" by (simp only: digits10_value)
  also have "\<dots> = foldl (\<lambda>a d. 10 * a + d) 0 (digits10 b)" by (simp only: e)
  also have "\<dots> = b" by (simp only: digits10_value)
  finally show ?thesis .
qed

lemma hd_digits10: "1 \<le> m \<Longrightarrow> hd (digits10 m) \<noteq> 0"
proof (induction m rule: digits10.induct)
  case (1 m)
  show ?case
  proof (cases "m < 10")
    case True
    with 1 show ?thesis by (subst digits10.simps) simp
  next
    case False
    then have "1 \<le> m div 10" by simp
    with 1 False digits10_nonempty [of "m div 10"] show ?thesis
      by (subst digits10.simps) simp
  qed
qed

lemma last_digits10: "last (digits10 m) = m mod 10"
  by (subst digits10.simps) simp

lemma unat_digitChar: "d < 10 \<Longrightarrow> unat (digitChar d) = 48 + d"
proof -
  assume "d < 10"
  then have "d \<in> {0, 1, 2, 3, 4, 5, 6, 7, 8, 9}" by auto
  then show ?thesis by (auto simp: digitChar_def)
qed

lemma digitChar_inj: "a < 10 \<Longrightarrow> b < 10 \<Longrightarrow> digitChar a = digitChar b \<Longrightarrow> a = b"
proof -
  assume a: "a < 10" and b: "b < 10" and e: "digitChar a = digitChar b"
  from e have "unat (digitChar a) = unat (digitChar b)" by (simp only:)
  with unat_digitChar [OF a] unat_digitChar [OF b] show ?thesis by linarith
qed

lemma digitChar_0: "digitChar 0 = 48"
  by (simp add: digitChar_def)

lemma digitChar_not_dot: "d < 10 \<Longrightarrow> digitChar d \<noteq> 46"
proof
  assume d: "d < 10" and "digitChar d = 46"
  then have "unat (digitChar d) = 46" by simp
  with unat_digitChar [OF d] d show False by linarith
qed

lemma digitChar_not_e: "d < 10 \<Longrightarrow> digitChar d \<noteq> 101"
proof
  assume d: "d < 10" and "digitChar d = 101"
  then have "unat (digitChar d) = 101" by simp
  with unat_digitChar [OF d] d show False by linarith
qed

lemma decimal_inj: "decimal a = decimal b \<Longrightarrow> a = b"
proof -
  assume e: "decimal a = decimal b"
  have "inj_on digitChar (set (digits10 a) \<union> set (digits10 b))"
    by (auto simp: inj_on_def dest!: digits10_lt intro: digitChar_inj)
  with e have "digits10 a = digits10 b"
    by (simp add: decimal_def inj_on_map_eq_map)
  then show ?thesis by (rule digits10_inj)
qed

lemma decimal_no_dot: "46 \<notin> set (decimal m)"
  by (auto simp: decimal_def dest!: digits10_lt digitChar_not_dot)

lemma decimal_no_e: "101 \<notin> set (decimal m)"
  by (auto simp: decimal_def dest!: digits10_lt digitChar_not_e)

lemma hd_decimal: "1 \<le> m \<Longrightarrow> hd (decimal m) \<noteq> 48"
proof -
  assume m: "1 \<le> m"
  have h: "hd (decimal m) = digitChar (hd (digits10 m))"
    by (simp add: decimal_def hd_map digits10_nonempty)
  have "hd (digits10 m) \<in> set (digits10 m)" by (simp add: digits10_nonempty)
  then have "hd (digits10 m) < 10" by (rule digits10_lt)
  with hd_digits10 [OF m] digitChar_inj [of "hd (digits10 m)" 0] show ?thesis
    by (auto simp: h digitChar_0 [symmetric])
qed

lemma last_decimal: "\<not> 10 dvd m \<Longrightarrow> last (decimal m) \<noteq> 48"
proof -
  assume m: "\<not> 10 dvd m"
  have h: "last (decimal m) = digitChar (m mod 10)"
    by (simp add: decimal_def last_map digits10_nonempty last_digits10)
  from m have "m mod 10 \<noteq> 0" by (simp add: dvd_eq_mod_eq_0)
  with digitChar_inj [of "m mod 10" 0] show ?thesis
    by (auto simp: h digitChar_0 [symmetric])
qed

lemma replicate_prefix_unique:
  "replicate a z @ xs = replicate b z @ ys \<Longrightarrow> xs \<noteq> [] \<Longrightarrow> ys \<noteq> [] \<Longrightarrow>
   hd xs \<noteq> z \<Longrightarrow> hd ys \<noteq> z \<Longrightarrow> a = b \<and> xs = ys"
proof (induction a arbitrary: b)
  case 0
  then show ?case by (cases b) auto
next
  case (Suc a)
  show ?case
  proof (cases b)
    case 0
    with Suc.prems show ?thesis by auto
  next
    case (Suc b')
    with Suc.prems Suc.IH [of b'] show ?thesis by simp
  qed
qed

lemma replicate_suffix_unique:
  assumes "xs @ replicate a z = ys @ replicate b z" "xs \<noteq> []" "ys \<noteq> []"
    "last xs \<noteq> z" "last ys \<noteq> z"
  shows "a = b \<and> xs = ys"
proof -
  from assms(1) have "rev (xs @ replicate a z) = rev (ys @ replicate b z)" by simp
  then have "replicate a z @ rev xs = replicate b z @ rev ys" by simp
  from replicate_prefix_unique [OF this] assms(2-5) show ?thesis
    by (simp add: hd_rev)
qed

lemma split_unique:
  "xs @ c # ys = xs' @ c # ys' \<Longrightarrow> c \<notin> set xs \<Longrightarrow> c \<notin> set xs' \<Longrightarrow> xs = xs' \<and> ys = ys'"
proof (induction xs arbitrary: xs')
  case Nil
  then show ?case by (cases xs') auto
next
  case (Cons x xs)
  then show ?case by (cases xs') auto
qed


lemma fmt_plain:
  "- 5 \<le> n \<Longrightarrow> n \<le> 21 \<Longrightarrow> int (length (decimal s)) \<le> n \<Longrightarrow>
     formatDigits (s, n)
       = decimal s @ replicate (nat (n - int (length (decimal s)))) 48"
  by (simp add: formatDigits_def Let_def digitChar_0)

lemma fmt_point:
  "0 < n \<Longrightarrow> n \<le> 21 \<Longrightarrow> n < int (length (decimal s)) \<Longrightarrow>
     formatDigits (s, n) = take (nat n) (decimal s) @ 46 # drop (nat n) (decimal s)"
  by (simp add: formatDigits_def Let_def ascii_def)

lemma length_decimal_pos: "0 < int (length (decimal s))"
  using decimal_nonempty [of s] by simp

lemma fmt_small:
  assumes "- 5 \<le> n" "n \<le> 0"
  shows "formatDigits (s, n) = 48 # 46 # replicate (nat (- n)) 48 @ decimal s"
proof -
  from length_decimal_pos [of s] assms(2) have "\<not> int (length (decimal s)) \<le> n"
    by linarith
  with assms show ?thesis
    by (simp add: formatDigits_def Let_def ascii_def digitChar_0)
qed

lemma fmt_exp1:
  "n < - 5 \<or> 21 < n \<Longrightarrow> length (decimal s) = 1 \<Longrightarrow>
     formatDigits (s, n)
       = decimal s @ 101 # (if n < 0 then 45 else 43) # decimal (nat \<bar>n - 1\<bar>)"
  by (auto simp: formatDigits_def Let_def ascii_def)

lemma fmt_expk:
  "n < - 5 \<or> 21 < n \<Longrightarrow> length (decimal s) \<noteq> 1 \<Longrightarrow>
     formatDigits (s, n)
       = (take 1 (decimal s) @ 46 # drop 1 (decimal s)) @
         101 # (if n < 0 then 45 else 43) # decimal (nat \<bar>n - 1\<bar>)"
  by (auto simp: formatDigits_def Let_def ascii_def)

lemma e_in_fmt: "101 \<in> set (formatDigits (s, n)) \<longleftrightarrow> \<not> (- 5 \<le> n \<and> n \<le> 21)"
proof (cases "- 5 \<le> n \<and> n \<le> 21")
  case True
  have "101 \<notin> set (formatDigits (s, n))"
    using True decimal_no_e [of s]
    by (auto simp: formatDigits_def Let_def ascii_def digitChar_0
        dest: in_set_takeD in_set_dropD)
  with True show ?thesis by simp
next
  case False
  then have "101 \<in> set (formatDigits (s, n))"
    by (cases "length (decimal s) = 1") (auto simp: fmt_exp1 fmt_expk)
  with False show ?thesis by simp
qed

lemma dot_in_fmt_inrange:
  "- 5 \<le> n \<Longrightarrow> n \<le> 21 \<Longrightarrow>
     46 \<in> set (formatDigits (s, n)) \<longleftrightarrow> n < int (length (decimal s))"
  using decimal_no_dot [of s]
  by (auto simp: formatDigits_def Let_def ascii_def digitChar_0)

lemma dot_in_fmt_exp:
  "n < - 5 \<or> 21 < n \<Longrightarrow>
     46 \<in> set (formatDigits (s, n)) \<longleftrightarrow> length (decimal s) \<noteq> 1"
  using decimal_no_dot [of s] decimal_no_dot [of "nat \<bar>n - 1\<bar>"]
  by (cases "length (decimal s) = 1") (auto simp: fmt_exp1 fmt_expk)

lemma hd_fmt_inrange:
  assumes "1 \<le> s" "- 5 \<le> n" "n \<le> 21"
  shows "hd (formatDigits (s, n)) = 48 \<longleftrightarrow> n \<le> 0"
proof -
  consider (plain) "int (length (decimal s)) \<le> n"
    | (point) "0 < n" "n < int (length (decimal s))" | (small) "n \<le> 0"
    by linarith
  then show ?thesis
  proof cases
    case plain
    with decimal_nonempty [of s] have "0 < n" by (cases "decimal s") auto
    with plain assms hd_decimal [OF assms(1)] decimal_nonempty [of s] show ?thesis
      by (simp add: fmt_plain)
  next
    case point
    with assms hd_decimal [OF assms(1)] decimal_nonempty [of s] show ?thesis
      by (simp add: fmt_point hd_append)
  next
    case small
    with assms show ?thesis by (simp add: fmt_small)
  qed
qed


lemma exponent_unique:
  assumes "n1 < - 5 \<or> 21 < n1" "n2 < - 5 \<or> 21 < n2"
    "(if n1 < 0 then 45 else 43 :: 16 word) # decimal (nat \<bar>n1 - 1\<bar>)
       = (if n2 < 0 then 45 else 43) # decimal (nat \<bar>n2 - 1\<bar>)"
  shows "n1 = n2"
proof -
  from assms(3) have sg: "(n1 < 0) = (n2 < 0)"
    by (auto split: if_splits)
  from assms(3) have "decimal (nat \<bar>n1 - 1\<bar>) = decimal (nat \<bar>n2 - 1\<bar>)" by simp
  then have "nat \<bar>n1 - 1\<bar> = nat \<bar>n2 - 1\<bar>" by (rule decimal_inj)
  with sg assms(1,2) show ?thesis by linarith
qed

lemma formatDigits_inj:
  assumes c1: "canonical (s1, n1)" and c2: "canonical (s2, n2)"
    and eq: "formatDigits (s1, n1) = formatDigits (s2, n2)"
  shows "s1 = s2 \<and> n1 = n2"
proof -
  let ?d1 = "decimal s1" and ?d2 = "decimal s2"
  from c1 c2 have p1: "1 \<le> s1" and p2: "1 \<le> s2" and t1: "\<not> 10 dvd s1" and t2: "\<not> 10 dvd s2"
    by (simp_all add: canonical_def)
  note ne = decimal_nonempty [of s1] decimal_nonempty [of s2]
  from eq e_in_fmt [of s1 n1] e_in_fmt [of s2 n2]
  have r: "(- 5 \<le> n1 \<and> n1 \<le> 21) = (- 5 \<le> n2 \<and> n2 \<le> 21)" by metis
  show ?thesis
  proof (cases "- 5 \<le> n1 \<and> n1 \<le> 21")
    case True
    with r have r1: "- 5 \<le> n1" "n1 \<le> 21" and r2: "- 5 \<le> n2" "n2 \<le> 21" by simp_all
    from eq dot_in_fmt_inrange [OF r1, of s1] dot_in_fmt_inrange [OF r2, of s2]
    have d: "(n1 < int (length ?d1)) = (n2 < int (length ?d2))" by simp
    show ?thesis
    proof (cases "n1 < int (length ?d1)")
      case True
      with d have l1: "n1 < int (length ?d1)" and l2: "n2 < int (length ?d2)" by simp_all
      from eq hd_fmt_inrange [OF p1 r1] hd_fmt_inrange [OF p2 r2]
      have z: "(n1 \<le> 0) = (n2 \<le> 0)" by simp
      show ?thesis
      proof (cases "n1 \<le> 0")
        case True
        with z have z1: "n1 \<le> 0" and z2: "n2 \<le> 0" by simp_all
        from eq fmt_small [OF r1(1) z1, of s1] fmt_small [OF r2(1) z2, of s2]
        have "replicate (nat (- n1)) 48 @ ?d1 = replicate (nat (- n2)) 48 @ ?d2" by simp
        from replicate_prefix_unique [OF this ne hd_decimal [OF p1] hd_decimal [OF p2]]
        have "nat (- n1) = nat (- n2)" and "?d1 = ?d2" by simp_all
        with z1 z2 decimal_inj [of s1 s2] show ?thesis by simp
      next
        case False
        with z have g1: "0 < n1" and g2: "0 < n2" by simp_all
        from eq fmt_point [OF g1 r1(2) l1] fmt_point [OF g2 r2(2) l2]
        have "take (nat n1) ?d1 @ 46 # drop (nat n1) ?d1
            = take (nat n2) ?d2 @ 46 # drop (nat n2) ?d2" by simp
        from split_unique [OF this] decimal_no_dot [of s1] decimal_no_dot [of s2]
        have tk: "take (nat n1) ?d1 = take (nat n2) ?d2"
          and dr: "drop (nat n1) ?d1 = drop (nat n2) ?d2"
          by (auto dest: in_set_takeD)
        have "?d1 = take (nat n1) ?d1 @ drop (nat n1) ?d1" by simp
        also have "\<dots> = take (nat n2) ?d2 @ drop (nat n2) ?d2" by (simp only: tk dr)
        also have "\<dots> = ?d2" by simp
        finally have dd: "?d1 = ?d2" .
        from tk have "length (take (nat n1) ?d1) = length (take (nat n2) ?d2)" by simp
        with l1 l2 g1 g2 have "n1 = n2" by simp
        with dd decimal_inj [of s1 s2] show ?thesis by simp
      qed
    next
      case False
      with d have l1: "int (length ?d1) \<le> n1" and l2: "int (length ?d2) \<le> n2" by simp_all
      from eq fmt_plain [OF r1 l1] fmt_plain [OF r2 l2]
      have "?d1 @ replicate (nat (n1 - int (length ?d1))) 48
          = ?d2 @ replicate (nat (n2 - int (length ?d2))) 48" by simp
      from replicate_suffix_unique [OF this ne last_decimal [OF t1] last_decimal [OF t2]]
      have "nat (n1 - int (length ?d1)) = nat (n2 - int (length ?d2))" and dd: "?d1 = ?d2"
        by blast+
      with l1 l2 have "n1 = n2" by simp
      with dd decimal_inj [of s1 s2] show ?thesis by simp
    qed
  next
    case False
    with r have o1: "n1 < - 5 \<or> 21 < n1" and o2: "n2 < - 5 \<or> 21 < n2" by auto
    from eq dot_in_fmt_exp [OF o1, of s1] dot_in_fmt_exp [OF o2, of s2]
    have d: "(length ?d1 \<noteq> 1) = (length ?d2 \<noteq> 1)" by simp
    show ?thesis
    proof (cases "length ?d1 = 1")
      case True
      with d have k1: "length ?d1 = 1" and k2: "length ?d2 = 1" by simp_all
      from eq fmt_exp1 [OF o1 k1] fmt_exp1 [OF o2 k2]
      have "?d1 @ 101 # (if n1 < 0 then 45 else 43) # decimal (nat \<bar>n1 - 1\<bar>)
          = ?d2 @ 101 # (if n2 < 0 then 45 else 43) # decimal (nat \<bar>n2 - 1\<bar>)"
        by simp
      from split_unique [OF this decimal_no_e decimal_no_e]
      have dd: "?d1 = ?d2"
        and ex: "(if n1 < 0 then 45 else 43 :: 16 word) # decimal (nat \<bar>n1 - 1\<bar>)
          = (if n2 < 0 then 45 else 43) # decimal (nat \<bar>n2 - 1\<bar>)"
        by simp_all
      from exponent_unique [OF o1 o2 ex] dd decimal_inj [of s1 s2] show ?thesis by simp
    next
      case False
      with d have k1: "length ?d1 \<noteq> 1" and k2: "length ?d2 \<noteq> 1" by simp_all
      let ?m1 = "take 1 ?d1 @ 46 # drop 1 ?d1" and ?m2 = "take 1 ?d2 @ 46 # drop 1 ?d2"
      have n1: "101 \<notin> set ?m1" and n2: "101 \<notin> set ?m2"
        using decimal_no_e [of s1] decimal_no_e [of s2]
        by (auto dest: in_set_takeD in_set_dropD)
      from eq fmt_expk [OF o1 k1] fmt_expk [OF o2 k2]
      have "?m1 @ 101 # (if n1 < 0 then 45 else 43) # decimal (nat \<bar>n1 - 1\<bar>)
          = ?m2 @ 101 # (if n2 < 0 then 45 else 43) # decimal (nat \<bar>n2 - 1\<bar>)"
        by simp
      from split_unique [OF this n1 n2]
      have mm: "?m1 = ?m2"
        and ex: "(if n1 < 0 then 45 else 43 :: 16 word) # decimal (nat \<bar>n1 - 1\<bar>)
          = (if n2 < 0 then 45 else 43) # decimal (nat \<bar>n2 - 1\<bar>)"
        by simp_all
      from split_unique [OF mm] decimal_no_dot [of s1] decimal_no_dot [of s2]
      have tk: "take 1 ?d1 = take 1 ?d2" and dr: "drop 1 ?d1 = drop 1 ?d2"
        by (auto dest: in_set_takeD)
      have "?d1 = take 1 ?d1 @ drop 1 ?d1" by simp
      also have "\<dots> = take 1 ?d2 @ drop 1 ?d2" by (simp only: tk dr)
      also have "\<dots> = ?d2" by simp
      finally have dd: "?d1 = ?d2" .
      from exponent_unique [OF o1 o2 ex] dd decimal_inj [of s1 s2] show ?thesis by simp
    qed
  qed
qed

lemma formatDigits_not_zero: "1 \<le> s \<Longrightarrow> formatDigits (s, n) \<noteq> [48]"
proof
  assume p: "1 \<le> s" and e: "formatDigits (s, n) = [48]"
  from e e_in_fmt [of s n] have r: "- 5 \<le> n" "n \<le> 21" by simp_all
  from e dot_in_fmt_inrange [OF r, of s] have l: "int (length (decimal s)) \<le> n" by simp
  from e fmt_plain [OF r l] have "decimal s @ replicate (nat (n - int (length (decimal s)))) 48 = [48]"
    by simp
  with decimal_nonempty [of s] have "hd (decimal s) = 48"
    by (cases "decimal s") (auto simp: Cons_eq_append_conv)
  with hd_decimal [OF p] show False by simp
qed

lemma Number_toString_nonneg_inj:
  assumes "0 \<le> x" "0 \<le> y"
    "0 < x \<Longrightarrow> canonical (shortestDigits rt x)" "0 < y \<Longrightarrow> canonical (shortestDigits rt y)"
    "0 < x \<Longrightarrow> 0 < y \<Longrightarrow> shortestDigits rt x = shortestDigits rt y \<Longrightarrow> x = y"
    "Number_toString rt (Finite x) = Number_toString rt (Finite y)"
  shows "x = y"
proof (cases "x = 0")
  case True
  show ?thesis
  proof (cases "y = 0")
    case True
    with \<open>x = 0\<close> show ?thesis by simp
  next
    case False
    with assms(2) have y: "0 < y" by simp
    from assms(4) [OF y] have "1 \<le> fst (shortestDigits rt y)" by (simp add: canonical_def)
    from formatDigits_not_zero [OF this, of "snd (shortestDigits rt y)"] assms(6) \<open>x = 0\<close> y
    show ?thesis by (simp add: ascii_def)
  qed
next
  case False
  with assms(1) have x: "0 < x" by simp
  show ?thesis
  proof (cases "y = 0")
    case True
    from assms(3) [OF x] have "1 \<le> fst (shortestDigits rt x)" by (simp add: canonical_def)
    from formatDigits_not_zero [OF this, of "snd (shortestDigits rt x)"] assms(6) True x
    show ?thesis by (simp add: ascii_def)
  next
    case False
    with assms(2) have y: "0 < y" by simp
    from assms(6) x y have "formatDigits (shortestDigits rt x) = formatDigits (shortestDigits rt y)"
      by simp
    with formatDigits_inj [of "fst (shortestDigits rt x)" "snd (shortestDigits rt x)"
        "fst (shortestDigits rt y)" "snd (shortestDigits rt y)"] assms(3) [OF x] assms(4) [OF y]
    have "shortestDigits rt x = shortestDigits rt y"
      by (simp add: prod_eq_iff)
    from assms(5) [OF x y this] show ?thesis .
  qed
qed

section \<open>Properties of the store with its objects\<close>

lemma notify_o_lift:
  "notify_o (map lift fs) rs (objs, w) = (Returned, objs, notify fs (map objs rs) w)"
  by (induction fs arbitrary: w) (simp_all add: lift_def slice_def)

lemma notify_o_loggers_names:
  "fst (notify_o (map (\<lambda>(i, k). logger_o i k) iks) rs (objs, tr)) = Returned \<and>
   map fst (snd (snd (notify_o (map (\<lambda>(i, k). logger_o i k) iks) rs (objs, tr))))
     = map fst tr @ map fst iks \<and>
   map (\<lambda>e. length (snd e)) (snd (snd (notify_o (map (\<lambda>(i, k). logger_o i k) iks) rs (objs, tr))))
     = map (\<lambda>e. length (snd e)) tr @ replicate (length iks) (length rs)"
proof (induction iks arbitrary: objs tr)
  case Nil
  then show ?case by simp
next
  case (Cons ik iks)
  obtain i k where ik: "ik = (i, k)" by (cases ik)
  from Cons [of "k rs objs" "tr @ [(i, map objs rs)]"] show ?case
    by (simp add: ik logger_o_def slice_def replicate_app_Cons_same)
qed

lemma notify_o_quiet_loggers:
  "notify_o (map (\<lambda>i. logger_o i (\<lambda>rs objs. objs)) is) rs (objs, tr)
     = (Returned, objs, tr @ map (\<lambda>i. (i, map objs rs)) is)"
  by (induction "is" arbitrary: tr) (simp_all add: logger_o_def slice_def)

lemma notify_o_status:
  "\<forall>f\<in>set fs. keeps_status f \<Longrightarrow>
     status (fst (snd (notify_o fs rs (objs, w))) r) = status (objs r)"
proof (induction fs arbitrary: objs w)
  case Nil
  then show ?case by simp
next
  case (Cons f fs)
  obtain oc objs' w' where e: "f (slice rs) (objs, w) = (oc, objs', w')"
    by (cases "f (slice rs) (objs, w)")
  from Cons.prems have k: "keeps_status f" and ks: "\<forall>f\<in>set fs. keeps_status f"
    by simp_all
  from k have "status (fst (snd (f (slice rs) (objs, w))) r) = status (objs r)"
    unfolding keeps_status_def by blast
  with e have s: "status (objs' r) = status (objs r)" by simp
  show ?case
  proof (cases oc)
    case Returned
    with Cons.IH [OF ks, of objs' w'] e s show ?thesis by simp
  next
    case Threw
    with e s show ?thesis by simp
  qed
qed

lemma status_Project: "status (Project i t d n st) = st"
  by (simp add: Project_def)

lemma exec_o_inv:
  assumes "inv_o c" "\<forall>f\<in>set (listeners_o (fst c)). keeps_status f"
    "\<forall>f\<in>set (registered_o [x]). keeps_status f"
  shows "inv_o (exec_o rt x c) \<and>
     listeners_o (fst (exec_o rt x c)) = listeners_o (fst c) @ registered_o [x]"
proof -
  obtain this h w where c: "c = (this, h, w)" by (cases c) auto
  show ?thesis
  proof (cases x)
    case (AddListener_o f)
    with assms c show ?thesis by (simp add: inv_o_def addListener_o_def)
  next
    case (AddProject_o t d n rnd)
    let ?o1 = "(objects h)(allocated h := Project (Number_toString rt rnd) t d n Active)"
    from assms(2) c have ks: "\<forall>f\<in>set (listeners_o this). keeps_status f" by simp
    have st: "status (fst (snd (notify_o (listeners_o this) (projects_o this @ [allocated h])
        (?o1, w))) r) = status (?o1 r)" for r
      by (rule notify_o_status [OF ks])
    from assms(1) c show ?thesis
      by (auto simp: AddProject_o c inv_o_def addProject_o_def Let_def st status_Project)
  qed
qed

lemma registered_o_Cons: "registered_o (x # xs) = registered_o [x] @ registered_o xs"
  by (cases x) simp_all

lemma run_o_inv:
  "inv_o c \<Longrightarrow> \<forall>f\<in>set (listeners_o (fst c)). keeps_status f \<Longrightarrow>
   \<forall>f\<in>set (registered_o cs). keeps_status f \<Longrightarrow> inv_o (run_o rt cs c)"
proof (induction cs arbitrary: c)
  case Nil
  then show ?case by simp
next
  case (Cons x xs)
  from Cons.prems(3) have kx: "\<forall>f\<in>set (registered_o [x]). keeps_status f"
    and kxs: "\<forall>f\<in>set (registered_o xs). keeps_status f"
    by (simp_all add: registered_o_Cons [of x xs])
  from exec_o_inv [OF Cons.prems(1,2) kx, of rt]
  have i: "inv_o (exec_o rt x c)"
    and l: "listeners_o (fst (exec_o rt x c)) = listeners_o (fst c) @ registered_o [x]"
    by simp_all
  from l Cons.prems(2) kx have "\<forall>f\<in>set (listeners_o (fst (exec_o rt x c))). keeps_status f"
    by auto
  from Cons.IH [OF i this kxs] show ?case by simp
qed

lemma run_o_active:
  assumes "\<forall>f\<in>set (registered_o cs). keeps_status f"
  shows "\<forall>p\<in>set (contents_o (run_o rt cs (new_ProjectState_o, h0, w))). status p = Active"
proof -
  have "inv_o (new_ProjectState_o, h0, w)"
    "\<forall>f\<in>set (listeners_o (fst (new_ProjectState_o, h0, w))). keeps_status f"
    by (simp_all add: inv_o_def new_ProjectState_o_def)
  from run_o_inv [OF this assms, of rt] show ?thesis
    by (auto simp: inv_o_def contents_o_def)
qed

lemma notify_o_loggers_extend:
  "\<exists>ys. snd (snd (notify_o (map (\<lambda>(i, k). logger_o i k) iks) rs (objs, tr))) = tr @ ys"
proof (induction iks arbitrary: objs tr)
  case Nil
  then show ?case by simp
next
  case (Cons ik iks)
  obtain i k where ik: "ik = (i, k)" by (cases ik)
  from Cons [of "k rs objs" "tr @ [(i, map objs rs)]"] show ?case
    by (auto simp: ik logger_o_def slice_def)
qed

lemma map_objects_fresh:
  "\<forall>r\<in>set rs. r < (a :: nat) \<Longrightarrow> map (objs(a := p)) rs = map objs rs"
  by (induction rs) auto

lemma keeps_status_lift: "keeps_status (lift f)"
  by (simp add: keeps_status_def lift_def)

lemma keeps_status_quiet_logger: "keeps_status (logger_o i (\<lambda>rs objs. objs))"
  by (simp add: keeps_status_def logger_o_def)

text \<open>
  C1, as amended. \<open>addProject(t, d, n)\<close> creates a project with the given title,
  description and people count, the status \<open>Active\<close> and as identifier the string of
  the number drawn in the call, and appends it to the projects of the store, whatever
  the listeners do to the projects and to the world (no listener calls back into the
  store); the first subscriber is handed the projects of the store with this project
  last. The identifier is never empty, and two different numbers of the range of
  \<open>Math.random()\<close> give two different identifiers when the runtime gives them
  different digits, as it does when the digits read back as the number. With subscribers
  that return, each is invoked exactly once, in the order of registration, with an array
  of all the projects. With subscribers that also leave the projects as they are, each
  is handed the full list as the store holds it: after \<open>addProject("T", "Desc text", 3)\<close>
  on an empty store with two such subscribers A and B, the log is the entry of A
  followed by the entry of B, each with the list of the one new, active project.
\<close>

theorem addProject_appends_and_notifies:
  assumes wf: "\<forall>r\<in>set rs. r < allocated h"
    and nx: "0 \<le> x" and ny: "0 \<le> y" and xy: "x \<noteq> y"
    and cx: "0 < x \<Longrightarrow> canonical (shortestDigits rt x)"
    and cy: "0 < y \<Longrightarrow> canonical (shortestDigits rt y)"
    and sd: "0 < x \<Longrightarrow> 0 < y \<Longrightarrow> shortestDigits rt x \<noteq> shortestDigits rt y"
  shows
  "fst (snd (addProject_o rt t d n rnd this (h, w)))
     = this\<lparr>projects_o := projects_o this @ [allocated h]\<rparr> \<and>
   allocated (fst (snd (snd (addProject_o rt t d n rnd this (h, w))))) = allocated h + 1 \<and>
   (\<exists>ys. snd (snd (snd (addProject_o rt t d n rnd
              \<lparr>listeners_o = logger_o i k # map (\<lambda>(i, k). logger_o i k) iks, projects_o = rs\<rparr>
              (h, tr))))
      = tr @ (i, map (objects h) rs @
                 [\<lparr>id_p = Number_toString rt rnd, title = t, description = d, people = n,
                   status = Active\<rparr>]) # ys) \<and>
   fst (addProject_o rt t d n rnd
          \<lparr>listeners_o = map (\<lambda>(i, k). logger_o i k) iks, projects_o = rs\<rparr> (h, tr))
     = Returned \<and>
   map fst (snd (snd (snd (addProject_o rt t d n rnd
          \<lparr>listeners_o = map (\<lambda>(i, k). logger_o i k) iks, projects_o = rs\<rparr> (h, tr)))))
     = map fst tr @ map fst iks \<and>
   map (\<lambda>e. length (snd e)) (snd (snd (snd (addProject_o rt t d n rnd
          \<lparr>listeners_o = map (\<lambda>(i, k). logger_o i k) iks, projects_o = rs\<rparr> (h, tr)))))
     = map (\<lambda>e. length (snd e)) tr @ replicate (length iks) (length rs + 1) \<and>
   addProject_o rt t d n rnd
       \<lparr>listeners_o = map (\<lambda>i. logger_o i (\<lambda>rs objs. objs)) names, projects_o = rs\<rparr> (h, tr)
     = (Returned,
        \<lparr>listeners_o = map (\<lambda>i. logger_o i (\<lambda>rs objs. objs)) names,
          projects_o = rs @ [allocated h]\<rparr>,
        \<lparr>objects = (objects h)
            (allocated h := \<lparr>id_p = Number_toString rt rnd, title = t, description = d,
                              people = n, status = Active\<rparr>),
          allocated = allocated h + 1\<rparr>,
        tr @ map (\<lambda>i. (i, map (objects h) rs @
                 [\<lparr>id_p = Number_toString rt rnd, title = t, description = d, people = n,
                   status = Active\<rparr>])) names) \<and>
   snd (snd (snd (addProject_o rt (ascii ''T'') (ascii ''Desc text'') (Finite 3) rnd
       \<lparr>listeners_o = [logger_o A (\<lambda>rs objs. objs), logger_o B (\<lambda>rs objs. objs)],
         projects_o = []\<rparr> (h, []))))
     = [(A, [\<lparr>id_p = Number_toString rt rnd, title = ascii ''T'',
                 description = ascii ''Desc text'', people = Finite 3, status = Active\<rparr>]),
        (B, [\<lparr>id_p = Number_toString rt rnd, title = ascii ''T'',
                 description = ascii ''Desc text'', people = Finite 3, status = Active\<rparr>])] \<and>
   Number_toString rt rnd \<noteq> [] \<and>
   Number_toString rt (Finite x) \<noteq> Number_toString rt (Finite y)"
proof -
  let ?P = "\<lparr>id_p = Number_toString rt rnd, title = t, description = d, people = n,
                   status = Active\<rparr>"
  let ?o1 = "(objects h)(allocated h := ?P)"
  have m: "map ?o1 rs = map (objects h) rs"
    using wf by (rule map_objects_fresh)
  have a: "fst (snd (addProject_o rt t d n rnd this (h, w)))
     = this\<lparr>projects_o := projects_o this @ [allocated h]\<rparr>"
    "allocated (fst (snd (snd (addProject_o rt t d n rnd this (h, w))))) = allocated h + 1"
    by (simp_all add: addProject_o_def Let_def)
  from notify_o_loggers_extend [of iks "rs @ [allocated h]"
      "k (rs @ [allocated h]) ?o1" "tr @ [(i, map ?o1 (rs @ [allocated h]))]"]
  obtain ys where "snd (snd (notify_o (map (\<lambda>(i, k). logger_o i k) iks) (rs @ [allocated h])
      (k (rs @ [allocated h]) ?o1, tr @ [(i, map ?o1 (rs @ [allocated h]))])))
      = (tr @ [(i, map ?o1 (rs @ [allocated h]))]) @ ys"
    by blast
  then have b: "\<exists>ys. snd (snd (snd (addProject_o rt t d n rnd
              \<lparr>listeners_o = logger_o i k # map (\<lambda>(i, k). logger_o i k) iks, projects_o = rs\<rparr>
              (h, tr))))
      = tr @ (i, map (objects h) rs @ [?P]) # ys"
    by (simp add: addProject_o_def Let_def Project_def logger_o_def slice_def m)
  from notify_o_loggers_names [of iks "rs @ [allocated h]" ?o1 tr]
  have c: "fst (addProject_o rt t d n rnd
          \<lparr>listeners_o = map (\<lambda>(i, k). logger_o i k) iks, projects_o = rs\<rparr> (h, tr))
     = Returned"
    "map fst (snd (snd (snd (addProject_o rt t d n rnd
          \<lparr>listeners_o = map (\<lambda>(i, k). logger_o i k) iks, projects_o = rs\<rparr> (h, tr)))))
     = map fst tr @ map fst iks"
    "map (\<lambda>e. length (snd e)) (snd (snd (snd (addProject_o rt t d n rnd
          \<lparr>listeners_o = map (\<lambda>(i, k). logger_o i k) iks, projects_o = rs\<rparr> (h, tr)))))
     = map (\<lambda>e. length (snd e)) tr @ replicate (length iks) (length rs + 1)"
    by (simp_all add: addProject_o_def Let_def Project_def)
  have e: "addProject_o rt t d n rnd
       \<lparr>listeners_o = map (\<lambda>i. logger_o i (\<lambda>rs objs. objs)) names, projects_o = rs\<rparr> (h, tr)
     = (Returned,
        \<lparr>listeners_o = map (\<lambda>i. logger_o i (\<lambda>rs objs. objs)) names,
          projects_o = rs @ [allocated h]\<rparr>,
        \<lparr>objects = ?o1, allocated = allocated h + 1\<rparr>,
        tr @ map (\<lambda>i. (i, map (objects h) rs @ [?P])) names)"
    by (simp add: addProject_o_def Let_def Project_def notify_o_quiet_loggers m)
  have f: "snd (snd (snd (addProject_o rt (ascii ''T'') (ascii ''Desc text'') (Finite 3) rnd
       \<lparr>listeners_o = [logger_o A (\<lambda>rs objs. objs), logger_o B (\<lambda>rs objs. objs)],
         projects_o = []\<rparr> (h, []))))
     = [(A, [\<lparr>id_p = Number_toString rt rnd, title = ascii ''T'',
                 description = ascii ''Desc text'', people = Finite 3, status = Active\<rparr>]),
        (B, [\<lparr>id_p = Number_toString rt rnd, title = ascii ''T'',
                 description = ascii ''Desc text'', people = Finite 3, status = Active\<rparr>])]"
    by (simp add: addProject_o_def Let_def Project_def logger_o_def slice_def)
  have g: "Number_toString rt (Finite x) \<noteq> Number_toString rt (Finite y)"
  proof
    assume "Number_toString rt (Finite x) = Number_toString rt (Finite y)"
    from Number_toString_nonneg_inj [OF nx ny cx cy _ this] sd xy
    show False by blast
  qed
  from a b c e f g Number_toString_nonempty [of rt rnd] show ?thesis by blast
qed

text \<open>
  The claim C1 as stated fails. The array a subscriber is handed is a copy, the
  projects in it are not: when subscriber A sets the status of the projects in its array
  to \<open>Finished\<close>, subscriber B is handed a finished project and the store holds one. A
  subscriber that throws ends the call, and the subscriber after it is not invoked.
  And the identifier is not checked against those in the store: two calls in which
  \<open>Math.random()\<close> returns the same number store the same identifier twice.
\<close>

theorem addProject_shares_projects:
  "snd (snd (snd (addProject_o example_runtime (ascii ''T'') (ascii ''Desc text'') (Finite 3)
       (Finite (1 / 2))
       \<lparr>listeners_o = [logger_o 0 finish_all, logger_o 1 (\<lambda>rs objs. objs)], projects_o = []\<rparr>
       (init_heap_o, []))))
     = [(0, [\<lparr>id_p = ascii ''0.5'', title = ascii ''T'', description = ascii ''Desc text'',
               people = Finite 3, status = Active\<rparr>]),
        (1, [\<lparr>id_p = ascii ''0.5'', title = ascii ''T'', description = ascii ''Desc text'',
               people = Finite 3, status = Finished\<rparr>])] \<and>
   contents_o (snd (addProject_o example_runtime (ascii ''T'') (ascii ''Desc text'') (Finite 3)
       (Finite (1 / 2))
       \<lparr>listeners_o = [logger_o 0 finish_all, logger_o 1 (\<lambda>rs objs. objs)], projects_o = []\<rparr>
       (init_heap_o, [])))
     = [\<lparr>id_p = ascii ''0.5'', title = ascii ''T'', description = ascii ''Desc text'',
          people = Finite 3, status = Finished\<rparr>] \<and>
   fst (addProject_o example_runtime (ascii ''T'') (ascii ''Desc text'') (Finite 3)
       (Finite (1 / 2))
       \<lparr>listeners_o = [thrower, logger_o 1 (\<lambda>rs objs. objs)], projects_o = []\<rparr>
       (init_heap_o, [])) = Threw \<and>
   snd (snd (snd (addProject_o example_runtime (ascii ''T'') (ascii ''Desc text'') (Finite 3)
       (Finite (1 / 2))
       \<lparr>listeners_o = [thrower, logger_o 1 (\<lambda>rs objs. objs)], projects_o = []\<rparr>
       (init_heap_o, [])))) = [] \<and>
   map id_p (contents_o (run_o example_runtime
       [AddProject_o (ascii ''T'') (ascii ''Desc text'') (Finite 3) (Finite (1 / 2)),
        AddProject_o (ascii ''U'') (ascii ''Other text'') (Finite 4) (Finite (1 / 2))]
       (new_ProjectState_o, init_heap_o, [] :: (nat \<times> project list) list)))
     = [ascii ''0.5'', ascii ''0.5''] \<and>
   \<not> distinct (map id_p (contents_o (run_o example_runtime
       [AddProject_o (ascii ''T'') (ascii ''Desc text'') (Finite 3) (Finite (1 / 2)),
        AddProject_o (ascii ''U'') (ascii ''Other text'') (Finite 4) (Finite (1 / 2))]
       (new_ProjectState_o, init_heap_o, [] :: (nat \<times> project list) list))))"
  by (simp add: addProject_o_def Let_def Project_def logger_o_def slice_def finish_all_def
      thrower_def init_heap_o_def contents_o_def new_ProjectState_o_def example_toString_half
      del: Number_toString.simps)

lemma example_toString_quarter:
  "Number_toString example_runtime (Finite (1 / 4)) = ascii ''0.25''"
  by (simp add: example_runtime_def formatDigits_def decimal_def digits10.simps [of 25]
      digits10.simps [of 2] digitChar_def ascii_def)

theorem addProject_appends_and_notifies_witness:
  "(0 :: nat) < allocated \<lparr>objects = (\<lambda>_. Project (ascii ''0.25'') (ascii ''S'')
       (ascii ''First text'') (Finite 2) Active), allocated = 1\<rparr> \<and>
   (0 :: rat) \<le> 1 / 2 \<and> (0 :: rat) \<le> 1 / 4 \<and> (1 / 2 :: rat) \<noteq> 1 / 4 \<and>
   canonical (shortestDigits example_runtime (1 / 2)) \<and>
   canonical (shortestDigits example_runtime (1 / 4)) \<and>
   shortestDigits example_runtime (1 / 2) \<noteq> shortestDigits example_runtime (1 / 4) \<and>
   snd (snd (snd (addProject_o example_runtime (ascii ''T'') (ascii ''Desc text'') (Finite 3)
       (Finite (1 / 2))
       \<lparr>listeners_o = map (\<lambda>i. logger_o i (\<lambda>rs objs. objs)) [0, 1], projects_o = [0]\<rparr>
       (\<lparr>objects = (\<lambda>_. Project (ascii ''0.25'') (ascii ''S'') (ascii ''First text'')
            (Finite 2) Active), allocated = 1\<rparr>, []))))
     = [(0, [\<lparr>id_p = ascii ''0.25'', title = ascii ''S'', description = ascii ''First text'',
               people = Finite 2, status = Active\<rparr>,
             \<lparr>id_p = ascii ''0.5'', title = ascii ''T'', description = ascii ''Desc text'',
               people = Finite 3, status = Active\<rparr>]),
        (1, [\<lparr>id_p = ascii ''0.25'', title = ascii ''S'', description = ascii ''First text'',
               people = Finite 2, status = Active\<rparr>,
             \<lparr>id_p = ascii ''0.5'', title = ascii ''T'', description = ascii ''Desc text'',
               people = Finite 3, status = Active\<rparr>])] \<and>
   Number_toString example_runtime (Finite (1 / 2))
     \<noteq> Number_toString example_runtime (Finite (1 / 4))"
proof -
  let ?h = "\<lparr>objects = (\<lambda>_. Project (ascii ''0.25'') (ascii ''S'') (ascii ''First text'')
       (Finite 2) Active), allocated = 1\<rparr>"
  have wf: "\<forall>r\<in>set [0 :: nat]. r < allocated ?h" by simp
  have nx: "(0 :: rat) \<le> 1 / 2" and ny: "(0 :: rat) \<le> 1 / 4" and xy: "(1 / 2 :: rat) \<noteq> 1 / 4"
    by simp_all
  have cx: "canonical (shortestDigits example_runtime (1 / 2))"
    and cy: "canonical (shortestDigits example_runtime (1 / 4))"
    and sd: "shortestDigits example_runtime (1 / 2) \<noteq> shortestDigits example_runtime (1 / 4)"
    by (simp_all add: canonical_def example_runtime_def)
  note T = addProject_appends_and_notifies [OF wf nx ny xy cx cy sd,
      where t = "ascii ''T''" and d = "ascii ''Desc text''" and n = "Finite 3"
      and rnd = "Finite (1 / 2)" and tr = "[]" and names = "[0, 1]" and iks = "[]"
      and this = "new_ProjectState_o :: (nat \<times> project list) list projectState_o"
      and w = "[]" and i = 0 and k = "\<lambda>rs objs. objs" and A = 0 and B = 1]
  from T have "addProject_o example_runtime (ascii ''T'') (ascii ''Desc text'') (Finite 3)
       (Finite (1 / 2))
       \<lparr>listeners_o = map (\<lambda>i. logger_o i (\<lambda>rs objs. objs)) [0, 1], projects_o = [0]\<rparr>
       (?h, [])
     = (Returned,
        \<lparr>listeners_o = map (\<lambda>i. logger_o i (\<lambda>rs objs. objs)) [0, 1],
          projects_o = [0] @ [allocated ?h]\<rparr>,
        \<lparr>objects = (objects ?h)
            (allocated ?h := \<lparr>id_p = Number_toString example_runtime (Finite (1 / 2)),
               title = ascii ''T'', description = ascii ''Desc text'',
               people = Finite 3, status = Active\<rparr>),
          allocated = allocated ?h + 1\<rparr>,
        [] @ map (\<lambda>i. (i, map (objects ?h) [0] @
                 [\<lparr>id_p = Number_toString example_runtime (Finite (1 / 2)),
                   title = ascii ''T'', description = ascii ''Desc text'',
                   people = Finite 3, status = Active\<rparr>])) [0, 1])"
    by blast
  then have e: "snd (snd (snd (addProject_o example_runtime (ascii ''T'') (ascii ''Desc text'')
       (Finite 3) (Finite (1 / 2))
       \<lparr>listeners_o = map (\<lambda>i. logger_o i (\<lambda>rs objs. objs)) [0, 1], projects_o = [0]\<rparr>
       (?h, []))))
     = [(0, [\<lparr>id_p = ascii ''0.25'', title = ascii ''S'', description = ascii ''First text'',
               people = Finite 2, status = Active\<rparr>,
             \<lparr>id_p = ascii ''0.5'', title = ascii ''T'', description = ascii ''Desc text'',
               people = Finite 3, status = Active\<rparr>]),
        (1, [\<lparr>id_p = ascii ''0.25'', title = ascii ''S'', description = ascii ''First text'',
               people = Finite 2, status = Active\<rparr>,
             \<lparr>id_p = ascii ''0.5'', title = ascii ''T'', description = ascii ''Desc text'',
               people = Finite 3, status = Active\<rparr>])]"
    by (simp add: example_toString_half Project_def del: Number_toString.simps)
  from T have g: "Number_toString example_runtime (Finite (1 / 2))
     \<noteq> Number_toString example_runtime (Finite (1 / 4))"
    by blast
  have a: "(0 :: nat) < allocated ?h" by simp
  from a nx ny xy cx cy sd e g show ?thesis by blast
qed

text \<open>
  C4. In every state of the store reached from the empty store by calls of
  \<open>addListener\<close> and \<open>addProject\<close>, with \<open>addProject\<close> the only operation that
  changes a project, that is with listeners that never change the status of a project,
  every project of the store has the status \<open>Active\<close>; so filtering the projects of
  the store for \<open>Finished\<close> gives the empty list, and the listener of the finished
  list, run on them, assigns no project and renders no item. In the program itself,
  whose only listeners are those of the two lists, after the module has run and after
  any number of submissions, every stored project is active and the finished list is
  empty.
\<close>

theorem projects_always_active:
  "((\<forall>f\<in>set (registered_o cs). keeps_status f) \<longrightarrow>
      (\<forall>p\<in>set (contents_o (run_o rt cs (new_ProjectState_o, hp, w))). status p = Active) \<and>
      filter (\<lambda>p. status p = Finished)
        (contents_o (run_o rt cs (new_ProjectState_o, hp, w))) = [] \<and>
      assignedProjects
        (snd (ProjectList_listener finished
                (contents_o (run_o rt cs (new_ProjectState_o, hp, w))) u)) finished = [] \<and>
      listItems
        (snd (ProjectList_listener finished
                (contents_o (run_o rt cs (new_ProjectState_o, hp, w))) u)) finished = []) \<and>
   (\<forall>p\<in>set (projects (heap (fst (session rt (fst main) subs (snd main))) ! fst main)).
      status p = Active) \<and>
   assignedProjects (snd (session rt (fst main) subs (snd main))) finished = [] \<and>
   listItems (snd (session rt (fst main) subs (snd main))) finished = []"
proof -
  have a: "(\<forall>f\<in>set (registered_o cs). keeps_status f) \<longrightarrow>
      (\<forall>p\<in>set (contents_o (run_o rt cs (new_ProjectState_o, hp, w))). status p = Active) \<and>
      filter (\<lambda>p. status p = Finished)
        (contents_o (run_o rt cs (new_ProjectState_o, hp, w))) = [] \<and>
      assignedProjects
        (snd (ProjectList_listener finished
                (contents_o (run_o rt cs (new_ProjectState_o, hp, w))) u)) finished = [] \<and>
      listItems
        (snd (ProjectList_listener finished
                (contents_o (run_o rt cs (new_ProjectState_o, hp, w))) u)) finished = []"
  proof
    assume "\<forall>f\<in>set (registered_o cs). keeps_status f"
    from run_o_active [OF this, of rt hp w]
    have s: "\<forall>p\<in>set (contents_o (run_o rt cs (new_ProjectState_o, hp, w))). status p = Active" .
    from s filter_Finished_Nil [OF s]
    show "(\<forall>p\<in>set (contents_o (run_o rt cs (new_ProjectState_o, hp, w))). status p = Active) \<and>
      filter (\<lambda>p. status p = Finished)
        (contents_o (run_o rt cs (new_ProjectState_o, hp, w))) = [] \<and>
      assignedProjects
        (snd (ProjectList_listener finished
                (contents_o (run_o rt cs (new_ProjectState_o, hp, w))) u)) finished = [] \<and>
      listItems
        (snd (ProjectList_listener finished
                (contents_o (run_o rt cs (new_ProjectState_o, hp, w))) u)) finished = []"
      by (simp add: ProjectList_listener_eq)
  qed
  from session_inv [OF main_inv, of rt subs]
  have b: "app_inv (fst main) (session rt (fst main) subs (snd main))" .
  from a b show ?thesis
    by (simp add: app_inv_def)
qed

theorem projects_always_active_witness:
  "keeps_status (logger_o 0 (\<lambda>rs objs. objs)) \<and>
   \<lparr>id_p = ascii ''0.5'', title = ascii ''T'', description = ascii ''Desc text'',
     people = Finite 3, status = Active\<rparr>
     \<in> set (contents_o (run_o example_runtime
           [AddListener_o (logger_o 0 (\<lambda>rs objs. objs)),
            AddProject_o (ascii ''T'') (ascii ''Desc text'') (Finite 3) (Finite (1 / 2))]
           (new_ProjectState_o, init_heap_o, []))) \<and>
   status \<lparr>id_p = ascii ''0.5'', title = ascii ''T'', description = ascii ''Desc text'',
     people = Finite 3, status = Active\<rparr> = Active \<and>
   listItems (snd (session example_runtime (fst main)
     [(ascii ''T'', ascii ''Desc text'', ascii ''3'', Finite (1 / 2))] (snd main))) finished = [] \<and>
   listItems (snd (session example_runtime (fst main)
     [(ascii ''T'', ascii ''Desc text'', ascii ''3'', Finite (1 / 2))] (snd main))) active
     = [ascii ''T'']"
proof -
  let ?p = "\<lparr>id_p = ascii ''0.5'', title = ascii ''T'', description = ascii ''Desc text'',
     people = Finite 3, status = Active\<rparr>"
  let ?cs = "[AddListener_o (logger_o 0 (\<lambda>rs objs. objs)),
            AddProject_o (ascii ''T'') (ascii ''Desc text'') (Finite 3) (Finite (1 / 2))]"
  let ?subs = "[(ascii ''T'', ascii ''Desc text'', ascii ''3'', Finite (1 / 2))]"
  have k: "\<forall>f\<in>set (registered_o ?cs). keeps_status f"
    by (simp add: keeps_status_quiet_logger)
  have e: "contents_o (run_o example_runtime ?cs (new_ProjectState_o, init_heap_o, [])) = [?p]"
    by (simp add: addProject_o_def addListener_o_def Let_def Project_def logger_o_def slice_def
        init_heap_o_def contents_o_def new_ProjectState_o_def example_toString_half
        del: Number_toString.simps)
  note T = projects_always_active [where rt = example_runtime and cs = ?cs
      and hp = init_heap_o and w = "[]" and subs = ?subs and u = init_ui]
  from T k have "\<forall>p\<in>set (contents_o (run_o example_runtime ?cs
        (new_ProjectState_o, init_heap_o, []))). status p = Active"
    by blast
  with e have s: "status ?p = Active" by simp
  from T have f: "listItems (snd (session example_runtime (fst main) ?subs (snd main)))
      finished = []"
    by blast
  have a: "listItems (snd (session example_runtime (fst main) ?subs (snd main))) active
      = [ascii ''T'']"
    unfolding example_session by (simp add: init_ui_def)
  have m: "?p \<in> set (contents_o (run_o example_runtime ?cs
        (new_ProjectState_o, init_heap_o, [])))"
    unfolding e by simp
  from keeps_status_quiet_logger [of 0] m s f a show ?thesis by blast
qed

end
